theory Spec2Isabelle
  imports Complex_Main "HOL-Library.Multiset"
begin

section \<open>The attendance server (server.js) as a state-passing model\<close>

text \<open>
  The server is an Express application over four Mongoose collections. A request handler
  is modelled as a function from the server state and the request to the reply (status
  code and body) and the next state.

  Scope of the model.
  \<^item> A collection is the list of its documents in insertion order; \<open>findOne\<close> returns the
    first match and \<open>find\<close> all matches, in that order.
  \<^item> Requests are handled one after the other (no interleaving of two handlers).
  \<^item> The collection operations are total: the store does not fail. A handler's
    last-resort \<open>catch\<close> (status 400 with the exception as body) is reached where
    \<open>save()\<close> throws because a value sent cannot be cast to the type of its schema path
    (start-session, mark-attendance) or fails the \<open>role\<close> validator (register), or
    where \<open>bcryptjs\<close> throws on a missing password (register, login).
  \<^item> A session code in a request is a string. A subject or a coordinate in a request is
    what the caster of its schema path makes of the value sent, see \<open>field\<close> below.
  \<^item> What the JavaScript runtime and the libraries supply (the clock, \<open>uuidv4\<close>, new
    ObjectIds, \<open>jsonwebtoken\<close>, \<open>bcryptjs\<close>, \<open>Date.prototype.toISOString\<close>) is a parameter,
    the record \<open>runtime\<close>.
  \<^item> The implicit \<open>_id\<close> of session, attendance and note documents is not modelled; a
    document is identified by its position in its collection.
  \<^item> Of socket.io, the events emitted are kept; which connection has joined which room
    is not.
\<close>

subsection \<open>Documents (the Mongoose schemas)\<close>

type_synonym oid = nat

text \<open>
  A path without a value is \<open>None\<close>. In a user document that matters to the code for
  \<open>password\<close> and \<open>role\<close> only; the other strings of a user are empty when unset.
\<close>

record geo =
  latitude :: "real option"
  longitude :: "real option"

record user =
  uid :: oid
  email :: string
  password :: "string option"
  role :: "string option"
  name :: string
  college :: string
  department :: string
  className :: string
  rollNumber :: string
  address :: string
  profileImage :: string
  idCardImage :: string
  timetableImage :: string
  createdAt :: int

record session =
  sessionId :: string
  teacherId :: oid
  subject :: "string option"
  location :: geo
  startTime :: int
  endTime :: "int option"
  active :: bool

record attendance =
  a_sessionId :: string
  studentId :: oid
  studentName :: string
  a_rollNumber :: string
  a_location :: geo
  timestamp :: int
  a_profileImage :: string

record note_doc =
  userId :: oid
  content :: string
  n_createdAt :: int

text \<open>
  The state: the collections, and the socket.io events emitted so far (room and payload).
\<close>

record server_state =
  users :: "user list"
  sessions :: "session list"
  attendances :: "attendance list"
  note_docs :: "note_doc list"
  emitted :: "(string \<times> attendance) list"

record runtime =
  now :: int
  uuid :: string
  newId :: oid
  jwt_verify :: "string \<Rightarrow> oid option"
  jwt_sign :: "oid \<Rightarrow> string"
  bcrypt_hash :: "string \<Rightarrow> string"
  bcrypt_compare :: "string \<Rightarrow> string \<Rightarrow> bool"
  toISOString :: "int \<Rightarrow> string"

subsection \<open>Values sent in a request body\<close>

text \<open>
  A value of the body that the handler hands to a schema path of type \<open>String\<close> or
  \<open>Number\<close>, as Mongoose's caster for the path leaves it: \<open>Given v\<close>, a value of the
  path's type (for a \<open>Number\<close> path the number sent, or the number a numeric string
  denotes); \<open>Absent\<close>, the key is missing or null, and the path stays unset;
  \<open>Malformed\<close>, a value the caster rejects with a CastError (for a \<open>Number\<close> path the
  string \<open>north\<close>, for a \<open>String\<close> path an array). The document is built all the same;
  \<open>save()\<close> then throws a ValidationError and writes nothing.
\<close>

datatype 'a field = Given 'a | Absent | Malformed

fun stored :: "'a field \<Rightarrow> 'a option" where
  "stored (Given v) = Some v"
| "stored Absent = None"
| "stored Malformed = None"

fun rejected :: "'a field \<Rightarrow> bool" where
  "rejected (Given v) = False"
| "rejected Absent = False"
| "rejected Malformed = True"

subsection \<open>Replies\<close>

record mark_response =
  success :: bool
  message :: string
  res_sessionId :: string
  res_subject :: "string option"
  res_date :: string
  res_attendance :: attendance

record history_entry =
  h_sessionId :: string
  h_subject :: "string option"
  h_date :: int
  status :: string
  h_location :: geo

datatype body =
    Error string
  | Thrown
  | UserToken user string
  | UserDoc user
  | NoteDoc note_doc
  | Notes "note_doc list"
  | Marked mark_response
  | History "history_entry list"
  | SessionDoc session
  | Attendances "attendance list"
  | Text string

datatype reply = Reply nat body

text \<open>The error replies, under the names the specification gives them.\<close>

definition Unauthenticated :: reply where
  "Unauthenticated = Reply 401 (Error ''Please authenticate.'')"

definition SessionNotActive :: reply where
  "SessionNotActive = Reply 404 (Error ''Session not active'')"

definition AlreadyMarked :: reply where
  "AlreadyMarked = Reply 400 (Error ''Already marked'')"

definition NotFound :: reply where
  "NotFound = Reply 404 (Error ''Session not found'')"

fun status_code :: "reply \<Rightarrow> nat" where
  "status_code (Reply c b) = c"

subsection \<open>Library operations\<close>

definition findOne :: "('a \<Rightarrow> bool) \<Rightarrow> 'a list \<Rightarrow> 'a option" where
  "findOne P xs = List.find P xs"

text \<open>
  \<open>findOneAndUpdate(filter, update, {new: true})\<close>: the first match is updated in place
  and returned as updated.
\<close>

fun findOneAndUpdate :: "('a \<Rightarrow> bool) \<Rightarrow> ('a \<Rightarrow> 'a) \<Rightarrow> 'a list \<Rightarrow> 'a option \<times> 'a list" where
  "findOneAndUpdate P f [] = (None, [])"
| "findOneAndUpdate P f (x # xs) =
     (if P x then (Some (f x), f x # xs)
      else (case findOneAndUpdate P f xs of (r, ys) \<Rightarrow> (r, x # ys)))"

text \<open>
  \<open>.sort({key: -1})\<close>: descending by the key. MongoDB leaves the order of equal keys
  open; here they keep their stored order.
\<close>

definition sort_desc :: "('a \<Rightarrow> int) \<Rightarrow> 'a list \<Rightarrow> 'a list" where
  "sort_desc key xs = sort_key (\<lambda>x. - key x) xs"

text \<open>\<open>String.prototype.replace\<close> with a string pattern: the first occurrence only.\<close>

fun replace :: "string \<Rightarrow> string \<Rightarrow> string \<Rightarrow> string" where
  "replace pat rep [] = (if pat = [] then rep else [])"
| "replace pat rep (c # cs) =
     (if take (length pat) (c # cs) = pat then rep @ drop (length pat) (c # cs)
      else c # replace pat rep cs)"

text \<open>\<open>String.prototype.substring\<close>: from the smaller index up to the larger.\<close>

definition substring :: "nat \<Rightarrow> nat \<Rightarrow> string \<Rightarrow> string" where
  "substring i j s = take (max i j - min i j) (drop (min i j) s)"

text \<open>\<open>toUpperCase\<close>, on ASCII (a UUID has no other character).\<close>

definition upper_char :: "char \<Rightarrow> char" where
  "upper_char c =
     (case map_of (zip ''abcdefghijklmnopqrstuvwxyz'' ''ABCDEFGHIJKLMNOPQRSTUVWXYZ'') c of
        Some C \<Rightarrow> C
      | None \<Rightarrow> c)"

definition toUpperCase :: "string \<Rightarrow> string" where
  "toUpperCase s = map upper_char s"

text \<open>
  The shape of what \<open>uuidv4()\<close> returns: 36 characters, lower-case hexadecimal digits in
  groups of 8, 4, 4, 4 and 12 separated by hyphens, the third group starting with the
  version digit 4.
\<close>

definition hex_digit :: "char \<Rightarrow> bool" where
  "hex_digit c = (c \<in> set ''0123456789abcdef'')"

definition is_uuid :: "string \<Rightarrow> bool" where
  "is_uuid s =
     (length s = 36
      \<and> list_all hex_digit (take 8 s) \<and> s ! 8 = CHR ''-''
      \<and> list_all hex_digit (take 4 (drop 9 s)) \<and> s ! 13 = CHR ''-''
      \<and> s ! 14 = CHR ''4''
      \<and> list_all hex_digit (take 4 (drop 14 s)) \<and> s ! 18 = CHR ''-''
      \<and> list_all hex_digit (take 4 (drop 19 s)) \<and> s ! 23 = CHR ''-''
      \<and> list_all hex_digit (drop 24 s))"

text \<open>An upper-case alphanumeric character, as the specification asks of a session code.\<close>

definition upper_alnum :: "char \<Rightarrow> bool" where
  "upper_alnum c = (c \<in> set ''0123456789ABCDEFGHIJKLMNOPQRSTUVWXYZ'')"

subsection \<open>The auth middleware\<close>

text \<open>
  The result is \<open>req.user\<close>, or \<open>None\<close> where the middleware answers 401: the header is
  missing (\<open>replace\<close> of \<open>undefined\<close> throws), \<open>jwt.verify\<close> throws, or no user has the
  token's \<open>_id\<close>.
\<close>

definition auth :: "runtime \<Rightarrow> server_state \<Rightarrow> string option \<Rightarrow> user option" where
  "auth rt st authorization =
     (case authorization of
        None \<Rightarrow> None
      | Some h \<Rightarrow>
          (case jwt_verify rt (replace ''Bearer '' [] h) of
             None \<Rightarrow> None
           | Some i \<Rightarrow> findOne (\<lambda>u. uid u = i) (users st)))"

subsection \<open>The route handlers\<close>

text \<open>
  \<open>POST /api/register\<close>. The body is given as a user document (its \<open>uid\<close> and
  \<open>createdAt\<close> are not read, its \<open>password\<close> is the plain one). \<open>bcrypt.hash\<close> throws
  without a password; \<open>save()\<close> throws when \<open>role\<close> is set to a string outside the
  schema's enum, and accepts an unset \<open>role\<close>.
\<close>

definition register :: "runtime \<Rightarrow> server_state \<Rightarrow> user \<Rightarrow> reply \<times> server_state" where
  "register rt st b =
     (case findOne (\<lambda>u. email u = email b) (users st) of
        Some existing \<Rightarrow> (Reply 400 (Error ''Email already used''), st)
      | None \<Rightarrow>
          (case password b of
             None \<Rightarrow> (Reply 400 Thrown, st)
           | Some pw \<Rightarrow>
               (let hashed = bcrypt_hash rt pw;
                    u = b\<lparr>uid := newId rt, password := Some hashed, createdAt := now rt\<rparr>
                in if role b \<noteq> None \<and> role b \<noteq> Some ''student''
                      \<and> role b \<noteq> Some ''teacher''
                   then (Reply 400 Thrown, st)
                   else (Reply 201 (UserToken u (jwt_sign rt (uid u))),
                         st\<lparr>users := users st @ [u]\<rparr>))))"

definition login :: "runtime \<Rightarrow> server_state \<Rightarrow> string \<Rightarrow> string \<Rightarrow> reply \<times> server_state" where
  "login rt st em pw =
     (case findOne (\<lambda>u. email u = em) (users st) of
        None \<Rightarrow> (Reply 400 (Error ''Invalid credentials''), st)
      | Some u \<Rightarrow>
          (case password u of
             None \<Rightarrow> (Reply 400 Thrown, st)
           | Some h \<Rightarrow>
               if \<not> bcrypt_compare rt pw h
               then (Reply 400 (Error ''Invalid credentials''), st)
               else (Reply 200 (UserToken u (jwt_sign rt (uid u))), st)))"

definition me :: "server_state \<Rightarrow> user \<Rightarrow> reply \<times> server_state" where
  "me st u = (Reply 200 (UserDoc (u\<lparr>password := None\<rparr>)), st)"

definition post_notes :: "runtime \<Rightarrow> server_state \<Rightarrow> user \<Rightarrow> string \<Rightarrow> reply \<times> server_state" where
  "post_notes rt st u c =
     (let n = \<lparr>userId = uid u, content = c, n_createdAt = now rt\<rparr>
      in (Reply 201 (NoteDoc n), st\<lparr>note_docs := note_docs st @ [n]\<rparr>))"

definition get_notes :: "server_state \<Rightarrow> user \<Rightarrow> reply \<times> server_state" where
  "get_notes st u =
     (Reply 200 (Notes (sort_desc n_createdAt (filter (\<lambda>n. userId n = uid u) (note_docs st)))), st)"

text \<open>
  \<open>POST /api/student/mark-attendance\<close>, after \<open>auth\<close>. Where a coordinate cannot be
  cast, \<open>attendance.save()\<close> throws: the handler's \<open>catch\<close> answers 400, and neither the
  write nor the socket event happens.
\<close>

definition mark_attendance ::
  "runtime \<Rightarrow> server_state \<Rightarrow> user \<Rightarrow> string \<Rightarrow> real field \<Rightarrow> real field \<Rightarrow>
   reply \<times> server_state" where
  "mark_attendance rt st u sid lat lon =
     (case findOne (\<lambda>s. sessionId s = sid \<and> active s) (sessions st) of
        None \<Rightarrow> (SessionNotActive, st)
      | Some sess \<Rightarrow>
          (case findOne (\<lambda>a. a_sessionId a = sid \<and> studentId a = uid u) (attendances st) of
             Some already \<Rightarrow> (AlreadyMarked, st)
           | None \<Rightarrow>
               (let att = \<lparr>a_sessionId = sid, studentId = uid u, studentName = name u,
                           a_rollNumber = rollNumber u,
                           a_location = \<lparr>latitude = stored lat, longitude = stored lon\<rparr>,
                           timestamp = now rt, a_profileImage = profileImage u\<rparr>
                in if rejected lat \<or> rejected lon
                   then (Reply 400 Thrown, st)
                   else (Reply 201 (Marked \<lparr>success = True, message = ''Attendance marked'',
                                             res_sessionId = sessionId sess,
                                             res_subject = subject sess,
                                             res_date = toISOString rt (timestamp att),
                                             res_attendance = att\<rparr>),
                         st\<lparr>attendances := attendances st @ [att],
                            emitted := emitted st @ [(sid, att)]\<rparr>))))"

text \<open>
  \<open>GET /api/student/attendance-history\<close>, after \<open>auth\<close>. The \<open>Map\<close> is filled in the
  order of the student's records, a later record replacing an earlier one under the same
  key. (The handler's \<open>User.findById\<close> result is not used.)
\<close>

definition attendanceMap :: "attendance list \<Rightarrow> (string \<rightharpoonup> attendance)" where
  "attendanceMap atts = foldl (\<lambda>m att. m(a_sessionId att \<mapsto> att)) Map.empty atts"

definition history_of :: "(string \<rightharpoonup> attendance) \<Rightarrow> session \<Rightarrow> history_entry" where
  "history_of m sess =
     (case m (sessionId sess) of
        Some att \<Rightarrow> \<lparr>h_sessionId = sessionId sess, h_subject = subject sess,
                     h_date = timestamp att, status = ''Present'',
                     h_location = location sess\<rparr>
      | None \<Rightarrow> \<lparr>h_sessionId = sessionId sess, h_subject = subject sess,
                 h_date = startTime sess, status = ''Absent'',
                 h_location = location sess\<rparr>)"

definition attendance_history :: "server_state \<Rightarrow> user \<Rightarrow> reply \<times> server_state" where
  "attendance_history st u =
     (let sesss = sort_desc startTime (filter (\<lambda>s. \<not> active s) (sessions st));
          atts = filter (\<lambda>a. studentId a = uid u) (attendances st);
          m = attendanceMap atts;
          history = map (history_of m) sesss
      in (Reply 200 (History history), st))"

text \<open>
  \<open>POST /api/teacher/start-session\<close>, after \<open>auth\<close>. Where the subject or a coordinate
  cannot be cast, \<open>session.save()\<close> throws: the handler's \<open>catch\<close> answers 400 and no
  session is stored.
\<close>

definition start_session ::
  "runtime \<Rightarrow> server_state \<Rightarrow> user \<Rightarrow> string field \<Rightarrow> real field \<Rightarrow> real field \<Rightarrow>
   reply \<times> server_state" where
  "start_session rt st u subj lat lon =
     (let sid = toUpperCase (substring 0 6 (uuid rt));
          sess = \<lparr>sessionId = sid, teacherId = uid u, subject = stored subj,
                  location = \<lparr>latitude = stored lat, longitude = stored lon\<rparr>,
                  startTime = now rt, endTime = None, active = True\<rparr>
      in if rejected subj \<or> rejected lat \<or> rejected lon
         then (Reply 400 Thrown, st)
         else (Reply 201 (SessionDoc sess), st\<lparr>sessions := sessions st @ [sess]\<rparr>))"

text \<open>\<open>POST /api/teacher/end-session\<close>, after \<open>auth\<close>.\<close>

definition end_session ::
  "runtime \<Rightarrow> server_state \<Rightarrow> user \<Rightarrow> string \<Rightarrow> reply \<times> server_state" where
  "end_session rt st u sid =
     (case findOneAndUpdate
             (\<lambda>s. sessionId s = sid \<and> teacherId s = uid u \<and> active s)
             (\<lambda>s. s\<lparr>active := False, endTime := Some (now rt)\<rparr>)
             (sessions st) of
        (None, ss) \<Rightarrow> (NotFound, st)
      | (Some sess, ss) \<Rightarrow> (Reply 200 (SessionDoc sess), st\<lparr>sessions := ss\<rparr>))"

text \<open>\<open>GET /api/teacher/session-attendance/:sessionId\<close>, after \<open>auth\<close>.\<close>

definition session_attendance :: "server_state \<Rightarrow> string \<Rightarrow> reply \<times> server_state" where
  "session_attendance st sid =
     (Reply 200 (Attendances (filter (\<lambda>a. a_sessionId a = sid) (attendances st))), st)"

subsection \<open>The routes\<close>

text \<open>
  A request: the route, the \<open>Authorization\<close> header where the route runs \<open>auth\<close>, and the
  fields the handler reads from the body or the path.
\<close>

datatype request =
    PostRegister user
  | PostLogin string string
  | GetMe "string option"
  | PostNotes "string option" string
  | GetNotes "string option"
  | PostMarkAttendance "string option" string "real field" "real field"
  | GetAttendanceHistory "string option"
  | PostStartSession "string option" "string field" "real field" "real field"
  | PostEndSession "string option" string
  | GetSessionAttendance "string option" string
  | GetRoot

definition authed ::
  "runtime \<Rightarrow> server_state \<Rightarrow> string option \<Rightarrow> (user \<Rightarrow> reply \<times> server_state) \<Rightarrow>
   reply \<times> server_state" where
  "authed rt st h handler =
     (case auth rt st h of None \<Rightarrow> (Unauthenticated, st) | Some u \<Rightarrow> handler u)"

fun serve :: "runtime \<Rightarrow> server_state \<Rightarrow> request \<Rightarrow> reply \<times> server_state" where
  "serve rt st (PostRegister b) = register rt st b"
| "serve rt st (PostLogin em pw) = login rt st em pw"
| "serve rt st (GetMe h) = authed rt st h (me st)"
| "serve rt st (PostNotes h c) = authed rt st h (\<lambda>u. post_notes rt st u c)"
| "serve rt st (GetNotes h) = authed rt st h (get_notes st)"
| "serve rt st (PostMarkAttendance h sid lat lon) =
     authed rt st h (\<lambda>u. mark_attendance rt st u sid lat lon)"
| "serve rt st (GetAttendanceHistory h) = authed rt st h (attendance_history st)"
| "serve rt st (PostStartSession h subj lat lon) =
     authed rt st h (\<lambda>u. start_session rt st u subj lat lon)"
| "serve rt st (PostEndSession h sid) = authed rt st h (\<lambda>u. end_session rt st u sid)"
| "serve rt st (GetSessionAttendance h sid) = authed rt st h (\<lambda>u. session_attendance st sid)"
| "serve rt st GetRoot = (Reply 200 (Text ''Attendance API Running''), st)"

subsection \<open>Notions used in the statements\<close>

text \<open>
  The filter and the update of the end-session handler, named: a session with the code,
  owned by the teacher and active; and a session ended at a time.
\<close>

definition owned_active :: "oid \<Rightarrow> string \<Rightarrow> session \<Rightarrow> bool" where
  "owned_active t sid s = (sessionId s = sid \<and> teacherId s = t \<and> active s)"

definition ended_at :: "int \<Rightarrow> session \<Rightarrow> session" where
  "ended_at t s = s\<lparr>active := False, endTime := Some t\<rparr>"

text \<open>The records a student holds under a session code, in stored order.\<close>

definition records_of :: "server_state \<Rightarrow> oid \<Rightarrow> string \<Rightarrow> attendance list" where
  "records_of st student code =
     filter (\<lambda>a. a_sessionId a = code \<and> studentId a = student) (attendances st)"

text \<open>
  A history entry as the specification words it, for a session and a student: the
  session's code, subject and location; \<open>Present\<close> with the timestamp of an attendance
  record of the student for the code if there is one, else \<open>Absent\<close> with the session's
  start time.
\<close>

definition spec_history_entry ::
  "server_state \<Rightarrow> oid \<Rightarrow> session \<Rightarrow> history_entry \<Rightarrow> bool" where
  "spec_history_entry st student sess e =
     (h_sessionId e = sessionId sess \<and> h_subject e = subject sess
      \<and> h_location e = location sess
      \<and> (if \<exists>a \<in> set (attendances st). a_sessionId a = sessionId sess \<and> studentId a = student
          then status e = ''Present''
               \<and> (\<exists>a \<in> set (attendances st).
                     a_sessionId a = sessionId sess \<and> studentId a = student
                     \<and> h_date e = timestamp a)
          else status e = ''Absent'' \<and> h_date e = startTime sess))"

text \<open>
  What one request may do to the list of sessions: every stored session keeps its place
  and is either unchanged or is ended now by an end-session request of its owner for its
  code, while it was active; a session that is new in the list is active, has no end
  time and comes from a start-session request.
\<close>

definition session_step :: "runtime \<Rightarrow> server_state \<Rightarrow> request \<Rightarrow> session list \<Rightarrow> session list \<Rightarrow> bool" where
  "session_step rt st req xs ys =
     (length xs \<le> length ys
      \<and> (\<forall>i < length xs.
            ys ! i = xs ! i
          \<or> (\<exists>h u. req = PostEndSession h (sessionId (xs ! i)) \<and> auth rt st h = Some u
                  \<and> owned_active (uid u) (sessionId (xs ! i)) (xs ! i)
                  \<and> ys ! i = ended_at (now rt) (xs ! i)))
      \<and> (\<forall>i. length xs \<le> i \<and> i < length ys \<longrightarrow>
            active (ys ! i) \<and> endTime (ys ! i) = None
            \<and> (\<exists>h subj lat lon. req = PostStartSession h subj lat lon)))"

text \<open>A sequence of requests, each with the runtime values of its moment.\<close>

fun run :: "server_state \<Rightarrow> (runtime \<times> request) list \<Rightarrow> server_state" where
  "run st [] = st"
| "run st ((rt, req) # rs) = run (snd (serve rt st req)) rs"

subsection \<open>Example data\<close>

definition alice :: user where
  "alice = \<lparr>uid = 1, email = ''alice@example.org'', password = Some ''#pw-a'',
            role = Some ''student'', name = ''Alice'', college = ''Unity'', department = ''CS'',
            className = ''SE-A'', rollNumber = ''R-17'', address = ''Pune'',
            profileImage = ''alice.png'', idCardImage = ''alice-id.png'',
            timetableImage = [], createdAt = 1000\<rparr>"

definition bob :: user where
  "bob = \<lparr>uid = 2, email = ''bob@example.org'', password = Some ''#pw-b'',
          role = Some ''teacher'', name = ''Bob'', college = ''Unity'', department = ''CS'',
          className = [], rollNumber = [], address = ''Pune'',
          profileImage = ''bob.png'', idCardImage = ''bob-id.png'',
          timetableImage = ''bob-tt.png'', createdAt = 2000\<rparr>"

definition tokens :: "string \<Rightarrow> oid option" where
  "tokens t = (if t = ''tok-alice'' then Some 1 else if t = ''tok-bob'' then Some 2 else None)"

definition iso_example :: "int \<Rightarrow> string" where
  "iso_example t =
     (if t = 6000 then ''1970-01-01T00:00:06.000Z''
      else if t = 5000 then ''1970-01-01T00:00:05.000Z'' else [])"

definition rt0 :: runtime where
  "rt0 = \<lparr>now = 5000, uuid = ''ab12cd34-5e6f-4a7b-8c9d-0123456789ab'', newId = 3,
          jwt_verify = tokens,
          jwt_sign = (\<lambda>i. if i = 1 then ''tok-alice'' else ''tok-bob''),
          bcrypt_hash = (\<lambda>p. CHR ''#'' # p),
          bcrypt_compare = (\<lambda>p h. h = CHR ''#'' # p),
          toISOString = iso_example\<rparr>"

definition hdr_alice :: "string option" where
  "hdr_alice = Some ''Bearer tok-alice''"

definition hdr_bob :: "string option" where
  "hdr_bob = Some ''Bearer tok-bob''"

definition s1 :: session where
  "s1 = \<lparr>sessionId = ''AB12CD'', teacherId = 2, subject = Some ''Maths'',
         location = \<lparr>latitude = Some 19, longitude = Some 72\<rparr>,
         startTime = 5000, endTime = None, active = True\<rparr>"

definition a1 :: attendance where
  "a1 = \<lparr>a_sessionId = ''AB12CD'', studentId = 1, studentName = ''Alice'',
         a_rollNumber = ''R-17'', a_location = \<lparr>latitude = Some 18, longitude = Some 73\<rparr>,
         timestamp = 6000, a_profileImage = ''alice.png''\<rparr>"

definition st_open :: server_state where
  "st_open = \<lparr>users = [alice, bob], sessions = [s1], attendances = [], note_docs = [],
              emitted = []\<rparr>"

definition st_marked :: server_state where
  "st_marked = \<lparr>users = [alice, bob], sessions = [s1], attendances = [a1], note_docs = [],
                emitted = [(''AB12CD'', a1)]\<rparr>"

definition s1_ended :: session where
  "s1_ended = s1\<lparr>active := False, endTime := Some 7000\<rparr>"

definition st_ended :: server_state where
  "st_ended = \<lparr>users = [alice, bob], sessions = [s1_ended], attendances = [a1],
               note_docs = [], emitted = [(''AB12CD'', a1)]\<rparr>"

definition rt1 :: runtime where
  "rt1 = rt0\<lparr>now := 6000, uuid := ''ab12cdef-0a1b-4c2d-9e3f-ba9876543210''\<rparr>"

definition s2 :: session where
  "s2 = \<lparr>sessionId = ''AB12CD'', teacherId = 2, subject = Some ''Physics'',
         location = \<lparr>latitude = Some 19, longitude = Some 72\<rparr>,
         startTime = 6000, endTime = None, active = True\<rparr>"

definition st_dup :: server_state where
  "st_dup = \<lparr>users = [alice, bob], sessions = [s1, s2], attendances = [], note_docs = [],
             emitted = []\<rparr>"

definition st_init :: server_state where
  "st_init = \<lparr>users = [alice, bob], sessions = [], attendances = [], note_docs = [],
              emitted = []\<rparr>"

definition rt2 :: runtime where
  "rt2 = rt0\<lparr>now := 7000\<rparr>"

definition rt3 :: runtime where
  "rt3 = rt0\<lparr>now := 8000\<rparr>"

definition s2_ended :: session where
  "s2_ended = s2\<lparr>active := False, endTime := Some 8000\<rparr>"

definition st_dup1 :: server_state where
  "st_dup1 = \<lparr>users = [alice, bob], sessions = [s1_ended, s2], attendances = [],
              note_docs = [], emitted = []\<rparr>"

definition st_dup2 :: server_state where
  "st_dup2 = \<lparr>users = [alice, bob], sessions = [s1_ended, s2_ended], attendances = [],
              note_docs = [], emitted = []\<rparr>"

definition s0 :: session where
  "s0 = \<lparr>sessionId = ''ZX90QP'', teacherId = 2, subject = Some ''Chemistry'',
         location = \<lparr>latitude = Some 19, longitude = Some 72\<rparr>,
         startTime = 3000, endTime = Some 4000, active = False\<rparr>"

definition st_hist :: server_state where
  "st_hist = \<lparr>users = [alice, bob], sessions = [s0, s1_ended, s2], attendances = [a1],
              note_docs = [], emitted = [(''AB12CD'', a1)]\<rparr>"

definition a2 :: attendance where
  "a2 = a1\<lparr>timestamp := 6500\<rparr>"

definition st_join :: server_state where
  "st_join = \<lparr>users = [alice, bob], sessions = [s1_ended, s2_ended],
              attendances = [a1, a2], note_docs = [], emitted = []\<rparr>"

section \<open>Properties\<close>

subsection \<open>Auxiliary facts\<close>

lemma auth_alice:
  "jwt_verify rt = tokens \<Longrightarrow> users st = [alice, bob] \<Longrightarrow> auth rt st hdr_alice = Some alice"
  by (simp add: auth_def hdr_alice_def tokens_def findOne_def alice_def)

lemma auth_bob:
  "jwt_verify rt = tokens \<Longrightarrow> users st = [alice, bob] \<Longrightarrow> auth rt st hdr_bob = Some bob"
  by (simp add: auth_def hdr_bob_def tokens_def findOne_def alice_def bob_def)

lemma rt0_tokens: "jwt_verify rt0 = tokens"
  by (simp add: rt0_def)

lemma findOne_append:
  "findOne P (xs @ ys) = (case findOne P xs of None \<Rightarrow> findOne P ys | Some x \<Rightarrow> Some x)"
  by (induction xs) (simp_all add: findOne_def)

lemma findOne_None_filter: "findOne P xs = None \<Longrightarrow> filter P xs = []"
  by (induction xs) (auto simp: findOne_def split: if_splits)

lemma findOne_Some: "findOne P xs = Some x \<Longrightarrow> x \<in> set xs \<and> P x"
  by (induction xs) (auto simp: findOne_def split: if_splits)

lemma auth_users:
  "users st' = users st \<Longrightarrow> jwt_verify rt' = jwt_verify rt \<Longrightarrow> auth rt' st' h = auth rt st h"
  by (simp add: auth_def split: option.splits)

lemma mark_success_cases:
  assumes "status_code (fst (mark_attendance rt st u sid lat lon)) = 201"
  shows "\<exists>sess. findOne (\<lambda>s. sessionId s = sid \<and> active s) (sessions st) = Some sess
     \<and> findOne (\<lambda>a. a_sessionId a = sid \<and> studentId a = uid u) (attendances st) = None
     \<and> \<not> rejected lat \<and> \<not> rejected lon"
  using assms
  by (auto simp: mark_attendance_def SessionNotActive_def AlreadyMarked_def Let_def
        split: option.splits if_splits)

lemma rt1_tokens: "jwt_verify rt1 = tokens"
  by (simp add: rt1_def rt0_def)

lemma mark_example:
  "serve rt1 st_open (PostMarkAttendance hdr_alice ''AB12CD'' (Given 18) (Given 73))
     = (Reply 201 (Marked \<lparr>success = True, message = ''Attendance marked'',
                            res_sessionId = ''AB12CD'', res_subject = Some ''Maths'',
                            res_date = ''1970-01-01T00:00:06.000Z'',
                            res_attendance = a1\<rparr>),
        st_marked)"
proof -
  have a: "auth rt1 st_open hdr_alice = Some alice"
    by (rule auth_alice) (simp_all add: rt1_tokens st_open_def)
  show ?thesis
    apply (simp only: serve.simps authed_def a option.simps)
    apply (simp add: mark_attendance_def findOne_def st_open_def st_marked_def s1_def a1_def
             alice_def iso_example_def rt1_def rt0_def Let_def)
    done
qed

lemma hex_upper: "hex_digit c \<Longrightarrow> upper_alnum (upper_char c)"
  unfolding hex_digit_def upper_alnum_def
  apply (simp only: set_simps insert_iff empty_iff simp_thms)
  apply (elim disjE)
  apply (simp_all add: upper_char_def)
  done

lemma uuid_prefix_hex:
  assumes "is_uuid s" and "c \<in> set (take 6 s)"
  shows "hex_digit c"
proof -
  have "set (take 6 s) \<subseteq> set (take 8 s)"
    by (rule set_take_subset_set_take) simp
  with assms(2) have "c \<in> set (take 8 s)" by blast
  moreover from assms(1) have "list_all hex_digit (take 8 s)"
    by (simp add: is_uuid_def)
  ultimately show ?thesis by (simp add: list_all_iff)
qed

lemma foldl_attendanceMap:
  "foldl (\<lambda>m att. m(a_sessionId att \<mapsto> att)) m atts k =
     (if filter (\<lambda>a. a_sessionId a = k) atts = [] then m k
      else Some (last (filter (\<lambda>a. a_sessionId a = k) atts)))"
  by (induction atts arbitrary: m) auto

lemma attendanceMap_lookup:
  "attendanceMap atts k =
     (if filter (\<lambda>a. a_sessionId a = k) atts = [] then None
      else Some (last (filter (\<lambda>a. a_sessionId a = k) atts)))"
  by (simp add: attendanceMap_def foldl_attendanceMap)

lemma mset_sort_desc: "mset (sort_desc key xs) = mset xs"
  by (simp add: sort_desc_def)

lemma length_sort_desc: "length (sort_desc key xs) = length xs"
  by (simp add: sort_desc_def)

lemma sorted_sort_desc: "sorted_wrt (\<lambda>a b. key b \<le> key a) (sort_desc key xs)"
proof -
  have "sorted (map (\<lambda>x. - key x) (sort_key (\<lambda>x. - key x) xs))"
    by (rule sorted_sort_key)
  then show ?thesis
    by (simp add: sort_desc_def sorted_map)
qed

lemma filter_sort_desc: "filter P (sort_desc key xs) = sort_desc key (filter P xs)"
  by (simp add: sort_desc_def filter_sort)

lemma history_lookup:
  "attendanceMap (filter (\<lambda>a. studentId a = i) atts) k =
     (if filter (\<lambda>a. a_sessionId a = k \<and> studentId a = i) atts = [] then None
      else Some (last (filter (\<lambda>a. a_sessionId a = k \<and> studentId a = i) atts)))"
proof -
  have "filter (\<lambda>a. a_sessionId a = k) (filter (\<lambda>a. studentId a = i) atts)
        = filter (\<lambda>a. a_sessionId a = k \<and> studentId a = i) atts"
    by (simp add: conj_commute)
  then show ?thesis by (simp add: attendanceMap_lookup)
qed

lemma history_of_entry:
  "spec_history_entry st i sess (history_of (attendanceMap (filter (\<lambda>a. studentId a = i) (attendances st))) sess)"
proof (cases "filter (\<lambda>a. a_sessionId a = sessionId sess \<and> studentId a = i) (attendances st) = []")
  case True
  then have "\<not> (\<exists>a \<in> set (attendances st). a_sessionId a = sessionId sess \<and> studentId a = i)"
    by (simp add: filter_empty_conv)
  with True show ?thesis
    by (simp add: spec_history_entry_def history_of_def history_lookup)
next
  case False
  let ?ys = "filter (\<lambda>a. a_sessionId a = sessionId sess \<and> studentId a = i) (attendances st)"
  from False have "last ?ys \<in> set ?ys" by (rule last_in_set)
  then have l: "last ?ys \<in> set (attendances st) \<and> a_sessionId (last ?ys) = sessionId sess \<and> studentId (last ?ys) = i"
    by simp
  then have "\<exists>a \<in> set (attendances st). a_sessionId a = sessionId sess \<and> studentId a = i"
    by blast
  with False l show ?thesis
    by (auto simp: spec_history_entry_def history_of_def history_lookup)
qed

lemma findOneAndUpdate_none:
  "\<not> (\<exists>x \<in> set xs. P x) \<Longrightarrow> findOneAndUpdate P f xs = (None, xs)"
  by (induction xs) auto

lemma findOneAndUpdate_first:
  "\<exists>x \<in> set xs. P x \<Longrightarrow>
   \<exists>i < length xs. P (xs ! i) \<and> (\<forall>j < i. \<not> P (xs ! j))
      \<and> findOneAndUpdate P f xs = (Some (f (xs ! i)), xs[i := f (xs ! i)])"
proof (induction xs)
  case Nil
  then show ?case by simp
next
  case (Cons x xs)
  show ?case
  proof (cases "P x")
    case True
    then have "P ((x # xs) ! 0) \<and> (\<forall>j < 0. \<not> P ((x # xs) ! j))
      \<and> findOneAndUpdate P f (x # xs) = (Some (f ((x # xs) ! 0)), (x # xs)[0 := f ((x # xs) ! 0)])"
      by simp
    then show ?thesis by blast
  next
    case False
    with Cons.prems have "\<exists>x \<in> set xs. P x" by simp
    from Cons.IH[OF this] obtain i where i: "i < length xs" "P (xs ! i)" "\<forall>j < i. \<not> P (xs ! j)"
      "findOneAndUpdate P f xs = (Some (f (xs ! i)), xs[i := f (xs ! i)])"
      by blast
    have "\<forall>j < Suc i. \<not> P ((x # xs) ! j)"
      using False i(3) by (auto simp: less_Suc_eq_0_disj)
    with False i have "Suc i < length (x # xs) \<and> P ((x # xs) ! Suc i) \<and> (\<forall>j < Suc i. \<not> P ((x # xs) ! j))
      \<and> findOneAndUpdate P f (x # xs) = (Some (f ((x # xs) ! Suc i)), (x # xs)[Suc i := f ((x # xs) ! Suc i)])"
      by simp
    then show ?thesis by blast
  qed
qed

lemma end_session_alt:
  "end_session rt st u sid =
     (case findOneAndUpdate (owned_active (uid u) sid) (ended_at (now rt)) (sessions st) of
        (None, ss) \<Rightarrow> (NotFound, st)
      | (Some sess, ss) \<Rightarrow> (Reply 200 (SessionDoc sess), st\<lparr>sessions := ss\<rparr>))"
proof -
  have 1: "(\<lambda>s. sessionId s = sid \<and> teacherId s = uid u \<and> active s) = owned_active (uid u) sid"
    by (simp add: owned_active_def fun_eq_iff)
  have 2: "(\<lambda>s. s\<lparr>active := False, endTime := Some (now rt)\<rparr>) = ended_at (now rt)"
    by (simp add: ended_at_def fun_eq_iff)
  show ?thesis
    unfolding end_session_def 1 2 ..
qed

lemma end_session_none:
  assumes "\<not> (\<exists>s \<in> set (sessions st). owned_active (uid u) sid s)"
  shows "end_session rt st u sid = (NotFound, st)"
  by (simp add: end_session_alt findOneAndUpdate_none[OF assms])

lemma end_session_some:
  assumes "\<exists>s \<in> set (sessions st). owned_active (uid u) sid s"
  shows "\<exists>i < length (sessions st).
           owned_active (uid u) sid (sessions st ! i)
         \<and> (\<forall>j < i. \<not> owned_active (uid u) sid (sessions st ! j))
         \<and> end_session rt st u sid
             = (Reply 200 (SessionDoc (ended_at (now rt) (sessions st ! i))),
                st\<lparr>sessions := (sessions st)[i := ended_at (now rt) (sessions st ! i)]\<rparr>)"
proof -
  from findOneAndUpdate_first[OF assms, of "ended_at (now rt)"]
  obtain i where i: "i < length (sessions st)" "owned_active (uid u) sid (sessions st ! i)"
     "\<forall>j < i. \<not> owned_active (uid u) sid (sessions st ! j)"
     "findOneAndUpdate (owned_active (uid u) sid) (ended_at (now rt)) (sessions st)
        = (Some (ended_at (now rt) (sessions st ! i)), (sessions st)[i := ended_at (now rt) (sessions st ! i)])"
    by blast
  have "end_session rt st u sid
             = (Reply 200 (SessionDoc (ended_at (now rt) (sessions st ! i))),
                st\<lparr>sessions := (sessions st)[i := ended_at (now rt) (sessions st ! i)]\<rparr>)"
    by (simp add: end_session_alt i(4))
  with i(1,2,3) show ?thesis by blast
qed

lemma not_owned_active_ended: "\<not> owned_active t sid (ended_at e s)"
  by (simp add: owned_active_def ended_at_def)

lemma exists_after_update:
  assumes "i < length xs" and "\<not> P y"
  shows "(\<exists>x \<in> set (xs[i := y]). P x) \<longleftrightarrow> (\<exists>j < length xs. j \<noteq> i \<and> P (xs ! j))"
proof
  assume "\<exists>x \<in> set (xs[i := y]). P x"
  then obtain j where j: "j < length xs" "P (xs[i := y] ! j)"
    by (auto simp: in_set_conv_nth)
  with assms have "j \<noteq> i" by auto
  with j show "\<exists>j < length xs. j \<noteq> i \<and> P (xs ! j)" by auto
next
  assume "\<exists>j < length xs. j \<noteq> i \<and> P (xs ! j)"
  then obtain j where j: "j < length xs" "j \<noteq> i" "P (xs ! j)" by blast
  then have "j < length (xs[i := y])" by simp
  then have "xs[i := y] ! j \<in> set (xs[i := y])" by (rule nth_mem)
  moreover have "xs[i := y] ! j = xs ! j" using j by simp
  ultimately show "\<exists>x \<in> set (xs[i := y]). P x" using j(3) by metis
qed

lemma rt2_tokens: "jwt_verify rt2 = tokens"
  by (simp add: rt2_def rt0_def)

lemma rt3_tokens: "jwt_verify rt3 = tokens"
  by (simp add: rt3_def rt0_def)

lemma sessions_start:
  "sessions (snd (start_session rt st u subj lat lon)) = sessions st
   \<or> sessions (snd (start_session rt st u subj lat lon))
     = sessions st @ [\<lparr>sessionId = toUpperCase (substring 0 6 (uuid rt)), teacherId = uid u,
                        subject = stored subj, location = \<lparr>latitude = stored lat, longitude = stored lon\<rparr>,
                        startTime = now rt, endTime = None, active = True\<rparr>]"
  by (simp add: start_session_def Let_def)

lemma sessions_end:
  "sessions (snd (end_session rt st u sid)) = sessions st
   \<or> (\<exists>i < length (sessions st). owned_active (uid u) sid (sessions st ! i)
         \<and> sessions (snd (end_session rt st u sid))
             = (sessions st)[i := ended_at (now rt) (sessions st ! i)])"
proof (cases "\<exists>s \<in> set (sessions st). owned_active (uid u) sid s")
  case False
  then show ?thesis by (simp add: end_session_none)
next
  case True
  from end_session_some[OF True, of rt] obtain i where
    "i < length (sessions st)" "owned_active (uid u) sid (sessions st ! i)"
    "end_session rt st u sid
       = (Reply 200 (SessionDoc (ended_at (now rt) (sessions st ! i))),
          st\<lparr>sessions := (sessions st)[i := ended_at (now rt) (sessions st ! i)]\<rparr>)"
    by blast
  then show ?thesis by auto
qed

lemma sessions_other:
  assumes "\<forall>h subj lat lon. req \<noteq> PostStartSession h subj lat lon"
    and "\<forall>h sid. req \<noteq> PostEndSession h sid"
  shows "sessions (snd (serve rt st req)) = sessions st"
  using assms
  by (cases req)
     (auto simp: authed_def mark_attendance_def register_def login_def me_def post_notes_def
        get_notes_def attendance_history_def session_attendance_def Let_def
       split: option.splits if_splits)

lemma no_new_index: "(length (xs :: 'a list) \<le> i \<and> i < length xs) = False"
  by auto

lemma session_step_refl: "session_step rt st req xs xs"
  by (simp add: session_step_def no_new_index)

lemma serve_session_step: "session_step rt st req (sessions st) (sessions (snd (serve rt st req)))"
proof -
  have other: "session_step rt st req (sessions st) (sessions (snd (serve rt st req)))"
    if "\<forall>h subj lat lon. req \<noteq> PostStartSession h subj lat lon"
      and "\<forall>h sid. req \<noteq> PostEndSession h sid"
    using sessions_other[OF that] by (simp add: session_step_refl del: serve.simps)
  show ?thesis
  proof (cases req)
  case (PostStartSession h subj lat lon)
  show ?thesis
  proof (cases "auth rt st h")
    case None
    then show ?thesis
      using PostStartSession by (simp add: authed_def session_step_refl)
  next
    case (Some u)
    then have s: "sessions (snd (serve rt st req))
                    = sessions (snd (start_session rt st u subj lat lon))"
      using PostStartSession by (simp add: authed_def)
    from sessions_start[of rt st u subj lat lon] show ?thesis
    proof
      assume "sessions (snd (start_session rt st u subj lat lon)) = sessions st"
      then show ?thesis by (simp add: s session_step_refl)
    next
      assume "sessions (snd (start_session rt st u subj lat lon))
        = sessions st @ [\<lparr>sessionId = toUpperCase (substring 0 6 (uuid rt)), teacherId = uid u,
                        subject = stored subj,
                        location = \<lparr>latitude = stored lat, longitude = stored lon\<rparr>,
                        startTime = now rt, endTime = None, active = True\<rparr>]"
      with s have "sessions (snd (serve rt st req))
        = sessions st @ [\<lparr>sessionId = toUpperCase (substring 0 6 (uuid rt)), teacherId = uid u,
                        subject = stored subj,
                        location = \<lparr>latitude = stored lat, longitude = stored lon\<rparr>,
                        startTime = now rt, endTime = None, active = True\<rparr>]"
        by (rule trans)
      then show ?thesis
        unfolding session_step_def using PostStartSession
        by (auto simp: nth_append simp del: serve.simps)
    qed
  qed
next
  case (PostEndSession h sid)
  show ?thesis
  proof (cases "auth rt st h")
    case None
    then show ?thesis
      using PostEndSession by (simp add: authed_def session_step_refl)
  next
    case (Some u)
    then have s: "sessions (snd (serve rt st req)) = sessions (snd (end_session rt st u sid))"
      using PostEndSession by (simp add: authed_def)
    from sessions_end[of rt st u sid] show ?thesis
    proof
      assume "sessions (snd (end_session rt st u sid)) = sessions st"
      then show ?thesis by (simp add: s session_step_refl)
    next
      assume "\<exists>i < length (sessions st). owned_active (uid u) sid (sessions st ! i)
         \<and> sessions (snd (end_session rt st u sid))
             = (sessions st)[i := ended_at (now rt) (sessions st ! i)]"
      then obtain k where k: "k < length (sessions st)"
        "owned_active (uid u) sid (sessions st ! k)"
        "sessions (snd (end_session rt st u sid))
             = (sessions st)[k := ended_at (now rt) (sessions st ! k)]"
        by blast
      have sid: "sessionId (sessions st ! k) = sid"
        using k(2) by (simp add: owned_active_def)
      have "(sessions st)[k := ended_at (now rt) (sessions st ! k)] ! i = sessions st ! i
          \<or> (\<exists>h' u'. req = PostEndSession h' (sessionId (sessions st ! i)) \<and> auth rt st h' = Some u'
                  \<and> owned_active (uid u') (sessionId (sessions st ! i)) (sessions st ! i)
                  \<and> (sessions st)[k := ended_at (now rt) (sessions st ! k)] ! i
                       = ended_at (now rt) (sessions st ! i))"
        if "i < length (sessions st)" for i
      proof (cases "i = k")
        case True
        with k sid Some PostEndSession show ?thesis by auto
      next
        case False
        then show ?thesis by simp
      qed
      then show ?thesis
        by (simp add: session_step_def s k(3) no_new_index)
    qed
  qed
  qed (rule other; simp)+
qed

lemma session_step_ended:
  assumes "session_step rt st req xs ys" and "i < length xs" and "\<not> active (xs ! i)"
  shows "i < length ys \<and> ys ! i = xs ! i"
  using assms by (auto simp: session_step_def owned_active_def)

lemma run_ended:
  "i < length (sessions st) \<Longrightarrow> \<not> active (sessions st ! i) \<Longrightarrow>
   i < length (sessions (run st rs)) \<and> sessions (run st rs) ! i = sessions st ! i"
proof (induction rs arbitrary: st)
  case Nil
  then show ?case by simp
next
  case (Cons r rs)
  obtain rt req where r: "r = (rt, req)" by (cases r)
  let ?st1 = "snd (serve rt st req)"
  from session_step_ended[OF serve_session_step Cons.prems]
  have 1: "i < length (sessions ?st1) \<and> sessions ?st1 ! i = sessions st ! i" .
  with Cons.prems(2) have "\<not> active (sessions ?st1 ! i)" by simp
  with 1 Cons.IH[of ?st1] show ?case
    by (simp add: r del: serve.simps)
qed

subsection \<open>Marking attendance\<close>

text \<open>
  Claim C2. For every session code and every authenticated caller, marking attendance is
  answered with SessionNotActive (status 404) whenever no stored session has that code
  and \<open>active = true\<close> (the code is unknown, or every session with it is ended),
  whatever else the state holds; the state is left as it was, so no record is written.
\<close>

theorem mark_attendance_session_not_active:
  assumes "auth rt st h = Some u"
    and "\<not> (\<exists>s \<in> set (sessions st). sessionId s = sid \<and> active s)"
  shows "serve rt st (PostMarkAttendance h sid lat lon) = (SessionNotActive, st)
         \<and> status_code SessionNotActive = 404"
proof -
  have "findOne (\<lambda>s. sessionId s = sid \<and> active s) (sessions st) = None"
    using assms(2) by (auto simp: findOne_def find_None_iff)
  then show ?thesis
    using assms(1) by (simp add: authed_def mark_attendance_def SessionNotActive_def)
qed

theorem mark_attendance_session_not_active_witness:
  "auth rt0 st_ended hdr_alice = Some alice
   \<and> \<not> (\<exists>s \<in> set (sessions st_ended). sessionId s = ''AB12CD'' \<and> active s)
   \<and> serve rt0 st_ended (PostMarkAttendance hdr_alice ''AB12CD'' (Given 18) (Given 73)) = (SessionNotActive, st_ended)
   \<and> status_code SessionNotActive = 404"
proof -
  have h1: "auth rt0 st_ended hdr_alice = Some alice"
    by (rule auth_alice) (simp_all add: rt0_def st_ended_def)
  have h2: "\<not> (\<exists>s \<in> set (sessions st_ended). sessionId s = ''AB12CD'' \<and> active s)"
    by (simp add: st_ended_def s1_ended_def)
  show ?thesis
    using h1 h2 mark_attendance_session_not_active [OF h1 h2, of "Given 18" "Given 73"] by simp
qed

text \<open>
  Claim C1. For every session code and student: when marking attendance succeeds (status
  201) and the same student at once marks attendance for the same code again, the second
  request is answered with AlreadyMarked (status 400) and writes nothing, and exactly one
  attendance record is stored for the pair of the code and the student.
\<close>

theorem mark_attendance_twice:
  assumes "auth rt st h = Some u"
    and "status_code (fst (serve rt st (PostMarkAttendance h sid lat lon))) = 201"
    and "jwt_verify rt' = jwt_verify rt"
  shows "serve rt' (snd (serve rt st (PostMarkAttendance h sid lat lon)))
             (PostMarkAttendance h sid lat' lon')
           = (AlreadyMarked, snd (serve rt st (PostMarkAttendance h sid lat lon)))
         \<and> status_code AlreadyMarked = 400
         \<and> length (filter (\<lambda>a. a_sessionId a = sid \<and> studentId a = uid u)
               (attendances (snd (serve rt st (PostMarkAttendance h sid lat lon))))) = 1"
proof -
  let ?P = "\<lambda>a. a_sessionId a = sid \<and> studentId a = uid u"
  have s: "serve rt st (PostMarkAttendance h sid lat lon) = mark_attendance rt st u sid lat lon"
    using assms(1) by (simp add: authed_def)
  from assms(2) obtain sess where
    f1: "findOne (\<lambda>s. sessionId s = sid \<and> active s) (sessions st) = Some sess" and
    f2: "findOne ?P (attendances st) = None" and
    f3: "\<not> rejected lat" "\<not> rejected lon"
    unfolding s using mark_success_cases by blast
  define att where "att = \<lparr>a_sessionId = sid, studentId = uid u, studentName = name u,
       a_rollNumber = rollNumber u, a_location = \<lparr>latitude = stored lat, longitude = stored lon\<rparr>,
       timestamp = now rt, a_profileImage = profileImage u\<rparr>"
  define st' where "st' = st\<lparr>attendances := attendances st @ [att],
       emitted := emitted st @ [(sid, att)]\<rparr>"
  have e: "snd (serve rt st (PostMarkAttendance h sid lat lon)) = st'"
    unfolding s by (simp add: mark_attendance_def f1 f2 f3 att_def st'_def Let_def)
  have "auth rt' st' h = auth rt st h"
    by (rule auth_users) (simp_all add: st'_def assms(3))
  then have a': "auth rt' st' h = Some u"
    using assms(1) by simp
  have g1: "findOne (\<lambda>s. sessionId s = sid \<and> active s) (sessions st') = Some sess"
    by (simp add: st'_def f1)
  have "?P att"
    by (simp add: att_def)
  then have g2: "findOne ?P (attendances st') = Some att"
    by (simp add: st'_def findOne_append f2) (simp add: findOne_def)
  have r: "serve rt' st' (PostMarkAttendance h sid lat' lon') = (AlreadyMarked, st')"
    by (simp only: serve.simps authed_def a' option.simps mark_attendance_def g1 g2)
  have n: "length (filter ?P (attendances st')) = 1"
    using \<open>?P att\<close> by (simp add: st'_def findOne_None_filter[OF f2])
  show ?thesis
    unfolding e using r n by (simp add: AlreadyMarked_def)
qed

theorem mark_attendance_twice_witness:
  "auth rt1 st_open hdr_alice = Some alice
   \<and> status_code (fst (serve rt1 st_open (PostMarkAttendance hdr_alice ''AB12CD'' (Given 18) (Given 73)))) = 201
   \<and> jwt_verify rt0 = jwt_verify rt1
   \<and> serve rt0 st_marked (PostMarkAttendance hdr_alice ''AB12CD'' (Given 20) (Given 70))
       = (AlreadyMarked, st_marked)
   \<and> length (filter (\<lambda>a. a_sessionId a = ''AB12CD'' \<and> studentId a = uid alice)
        (attendances st_marked)) = 1"
proof -
  have h1: "auth rt1 st_open hdr_alice = Some alice"
    by (rule auth_alice) (simp_all add: rt1_tokens st_open_def)
  have h2: "status_code (fst (serve rt1 st_open (PostMarkAttendance hdr_alice ''AB12CD'' (Given 18) (Given 73)))) = 201"
    unfolding mark_example by simp
  have h3: "jwt_verify rt0 = jwt_verify rt1"
    by (simp add: rt1_tokens rt0_tokens)
  show ?thesis
    using h1 h2 h3 mark_attendance_twice [OF h1 h2 h3, of "Given 20" "Given 70"]
    unfolding mark_example by simp
qed

text \<open>
  Claim C6. When marking attendance succeeds, the reply (status 201) carries the record
  just created, the subject of the session found for the code, the session code, and the
  record's timestamp rendered by \<open>toISOString\<close> (the ISO-8601 form); the record appended
  to the collection holds the caller's name, roll number and profile image as they are in
  the user document at the time of the request, together with the code, the caller's
  identifier, the coordinates sent and the current time.
\<close>

theorem mark_attendance_response:
  assumes "auth rt st h = Some u"
    and "status_code (fst (serve rt st (PostMarkAttendance h sid lat lon))) = 201"
  shows "\<exists>sess att.
           findOne (\<lambda>s. sessionId s = sid \<and> active s) (sessions st) = Some sess
         \<and> att = \<lparr>a_sessionId = sid, studentId = uid u, studentName = name u,
                   a_rollNumber = rollNumber u,
                   a_location = \<lparr>latitude = stored lat, longitude = stored lon\<rparr>,
                   timestamp = now rt, a_profileImage = profileImage u\<rparr>
         \<and> serve rt st (PostMarkAttendance h sid lat lon)
             = (Reply 201 (Marked \<lparr>success = True, message = ''Attendance marked'',
                                    res_sessionId = sid, res_subject = subject sess,
                                    res_date = toISOString rt (timestamp att),
                                    res_attendance = att\<rparr>),
                st\<lparr>attendances := attendances st @ [att],
                   emitted := emitted st @ [(sid, att)]\<rparr>)"
proof -
  have s: "serve rt st (PostMarkAttendance h sid lat lon) = mark_attendance rt st u sid lat lon"
    using assms(1) by (simp add: authed_def)
  from assms(2) obtain sess where
    f1: "findOne (\<lambda>s. sessionId s = sid \<and> active s) (sessions st) = Some sess" and
    f2: "findOne (\<lambda>a. a_sessionId a = sid \<and> studentId a = uid u) (attendances st) = None" and
    f3: "\<not> rejected lat" "\<not> rejected lon"
    unfolding s using mark_success_cases by blast
  have "sessionId sess = sid" using findOne_Some[OF f1] by simp
  then show ?thesis
    unfolding s by (simp add: mark_attendance_def f1 f2 f3 Let_def)
qed

theorem mark_attendance_response_witness:
  "auth rt1 st_open hdr_alice = Some alice
   \<and> status_code (fst (serve rt1 st_open (PostMarkAttendance hdr_alice ''AB12CD'' (Given 18) (Given 73)))) = 201
   \<and> serve rt1 st_open (PostMarkAttendance hdr_alice ''AB12CD'' (Given 18) (Given 73))
       = (Reply 201 (Marked \<lparr>success = True, message = ''Attendance marked'',
                              res_sessionId = ''AB12CD'', res_subject = Some ''Maths'',
                              res_date = ''1970-01-01T00:00:06.000Z'',
                              res_attendance = a1\<rparr>),
          st_marked)
   \<and> studentName a1 = name alice \<and> a_rollNumber a1 = rollNumber alice
   \<and> a_profileImage a1 = profileImage alice"
proof -
  have h1: "auth rt1 st_open hdr_alice = Some alice"
    by (rule auth_alice) (simp_all add: rt1_tokens st_open_def)
  have h2: "status_code (fst (serve rt1 st_open (PostMarkAttendance hdr_alice ''AB12CD'' (Given 18) (Given 73)))) = 201"
    unfolding mark_example by simp
  have "studentName a1 = name alice \<and> a_rollNumber a1 = rollNumber alice
        \<and> a_profileImage a1 = profileImage alice"
    by (simp add: a1_def alice_def)
  then show ?thesis
    using h1 h2 mark_attendance_response [OF h1 h2] mark_example by simp
qed

subsection \<open>The attendance history\<close>

text \<open>
  Claim C3. For every authenticated student the history reply (status 200, state
  unchanged) has exactly one entry per stored session with \<open>active = false\<close> and none for
  an active session: the entries are, in order, the entries of the ended sessions arranged
  by start time descending, each with the session's code, subject and location, with
  status \<open>Present\<close> and the timestamp of an attendance record of the student for the code
  when such a record exists, and else \<open>Absent\<close> and the session's start time. A student
  without any attendance record gets as many entries as there are ended sessions, all
  \<open>Absent\<close>.
\<close>

theorem history_entries:
  assumes "auth rt st h = Some u"
  shows "\<exists>ss hist.
           serve rt st (GetAttendanceHistory h) = (Reply 200 (History hist), st)
         \<and> mset ss = mset (filter (\<lambda>s. \<not> active s) (sessions st))
         \<and> sorted_wrt (\<lambda>a b. startTime b \<le> startTime a) ss
         \<and> list_all2 (spec_history_entry st (uid u)) ss hist
         \<and> length hist = length (filter (\<lambda>s. \<not> active s) (sessions st))
         \<and> (filter (\<lambda>a. studentId a = uid u) (attendances st) = []
              \<longrightarrow> list_all (\<lambda>e. status e = ''Absent'') hist)"
proof -
  let ?ended = "filter (\<lambda>s. \<not> active s) (sessions st)"
  let ?ss = "sort_desc startTime ?ended"
  let ?m = "attendanceMap (filter (\<lambda>a. studentId a = uid u) (attendances st))"
  let ?hist = "map (history_of ?m) ?ss"
  have 1: "serve rt st (GetAttendanceHistory h) = (Reply 200 (History ?hist), st)"
    using assms by (simp add: authed_def attendance_history_def Let_def)
  have 2: "list_all2 (spec_history_entry st (uid u)) ?ss ?hist"
    by (simp add: list_all2_map2 list_all2_same history_of_entry)
  have 3: "filter (\<lambda>a. studentId a = uid u) (attendances st) = []
              \<longrightarrow> list_all (\<lambda>e. status e = ''Absent'') ?hist"
    by (simp add: list_all_iff attendanceMap_def history_of_def)
  show ?thesis
    using 1 2 3 mset_sort_desc[of startTime ?ended] sorted_sort_desc[of startTime ?ended]
      length_sort_desc[of startTime ?ended]
    by (intro exI[of _ ?ss] exI[of _ ?hist]) simp
qed

theorem history_entries_witness:
  "auth rt0 st_hist hdr_alice = Some alice
   \<and> filter (\<lambda>s. \<not> active s) (sessions st_hist) = [s0, s1_ended]
   \<and> serve rt0 st_hist (GetAttendanceHistory hdr_alice)
       = (Reply 200 (History
            [\<lparr>h_sessionId = ''AB12CD'', h_subject = Some ''Maths'', h_date = 6000,
              status = ''Present'', h_location = \<lparr>latitude = Some 19, longitude = Some 72\<rparr>\<rparr>,
             \<lparr>h_sessionId = ''ZX90QP'', h_subject = Some ''Chemistry'', h_date = 3000,
              status = ''Absent'', h_location = \<lparr>latitude = Some 19, longitude = Some 72\<rparr>\<rparr>]),
          st_hist)
   \<and> (\<exists>ss hist. serve rt0 st_hist (GetAttendanceHistory hdr_alice)
                    = (Reply 200 (History hist), st_hist)
         \<and> mset ss = mset [s0, s1_ended]
         \<and> sorted_wrt (\<lambda>a b. startTime b \<le> startTime a) ss
         \<and> list_all2 (spec_history_entry st_hist (uid alice)) ss hist
         \<and> length hist = 2)
   \<and> auth rt0 st_hist hdr_bob = Some bob
   \<and> filter (\<lambda>a. studentId a = uid bob) (attendances st_hist) = []
   \<and> (\<exists>hist. serve rt0 st_hist (GetAttendanceHistory hdr_bob)
                 = (Reply 200 (History hist), st_hist)
         \<and> length hist = 2
         \<and> list_all (\<lambda>e. status e = ''Absent'') hist)"
proof -
  have hb: "auth rt0 st_hist hdr_bob = Some bob"
    by (rule auth_bob) (simp_all add: rt0_tokens st_hist_def)
  have fb: "filter (\<lambda>a. studentId a = uid bob) (attendances st_hist) = []"
    by (simp add: st_hist_def a1_def bob_def)
  have h: "auth rt0 st_hist hdr_alice = Some alice"
    by (rule auth_alice) (simp_all add: rt0_tokens st_hist_def)
  have f: "filter (\<lambda>s. \<not> active s) (sessions st_hist) = [s0, s1_ended]"
    by (simp add: st_hist_def s0_def s1_ended_def s1_def s2_def)
  have e: "serve rt0 st_hist (GetAttendanceHistory hdr_alice)
       = (Reply 200 (History
            [\<lparr>h_sessionId = ''AB12CD'', h_subject = Some ''Maths'', h_date = 6000,
              status = ''Present'', h_location = \<lparr>latitude = Some 19, longitude = Some 72\<rparr>\<rparr>,
             \<lparr>h_sessionId = ''ZX90QP'', h_subject = Some ''Chemistry'', h_date = 3000,
              status = ''Absent'', h_location = \<lparr>latitude = Some 19, longitude = Some 72\<rparr>\<rparr>]),
          st_hist)"
    apply (simp only: serve.simps authed_def h option.simps)
    apply (simp add: attendance_history_def attendanceMap_def history_of_def sort_desc_def
             st_hist_def s0_def s1_ended_def s1_def s2_def a1_def alice_def Let_def)
    done
  have 1: "\<exists>ss hist. serve rt0 st_hist (GetAttendanceHistory hdr_alice)
                    = (Reply 200 (History hist), st_hist)
         \<and> mset ss = mset [s0, s1_ended]
         \<and> sorted_wrt (\<lambda>a b. startTime b \<le> startTime a) ss
         \<and> list_all2 (spec_history_entry st_hist (uid alice)) ss hist
         \<and> length hist = 2"
    using history_entries [OF h] unfolding f by auto
  have 2: "\<exists>hist. serve rt0 st_hist (GetAttendanceHistory hdr_bob)
                 = (Reply 200 (History hist), st_hist)
         \<and> length hist = 2
         \<and> list_all (\<lambda>e. status e = ''Absent'') hist"
    using history_entries [OF hb] unfolding f fb by auto
  show ?thesis
    by (intro conjI h f e 1 hb fb 2)
qed

text \<open>
  Claim C10. The history joins on the session code alone. When the student holds at least
  one attendance record with a code, every entry of the history with that code is
  \<open>Present\<close> and dated with the timestamp of the last such record in stored order, and
  there is one such entry for every ended session carrying the code; so two ended
  sessions sharing a code get the same status and date, and of several records with the
  code only the last determines the date.
\<close>

theorem history_keyed_by_code:
  assumes "auth rt st h = Some u"
    and "records_of st (uid u) code \<noteq> []"
  shows "\<exists>hist.
           serve rt st (GetAttendanceHistory h) = (Reply 200 (History hist), st)
         \<and> list_all (\<lambda>e. h_sessionId e = code \<longrightarrow>
               status e = ''Present''
               \<and> h_date e = timestamp (last (records_of st (uid u) code))) hist
         \<and> length (filter (\<lambda>e. h_sessionId e = code) hist)
             = length (filter (\<lambda>s. \<not> active s \<and> sessionId s = code) (sessions st))"
proof -
  let ?ended = "filter (\<lambda>s. \<not> active s) (sessions st)"
  let ?ss = "sort_desc startTime ?ended"
  let ?m = "attendanceMap (filter (\<lambda>a. studentId a = uid u) (attendances st))"
  let ?hist = "map (history_of ?m) ?ss"
  have 1: "serve rt st (GetAttendanceHistory h) = (Reply 200 (History ?hist), st)"
    using assms(1) by (simp add: authed_def attendance_history_def Let_def)
  have m: "?m code = Some (last (records_of st (uid u) code))"
    using assms(2) by (simp add: history_lookup records_of_def)
  have k: "h_sessionId (history_of ?m s) = sessionId s" for s
    by (simp add: history_of_def split: option.splits)
  have 2: "list_all (\<lambda>e. h_sessionId e = code \<longrightarrow>
               status e = ''Present''
               \<and> h_date e = timestamp (last (records_of st (uid u) code))) ?hist"
    using m by (auto simp: list_all_iff k) (simp_all add: history_of_def)
  have "filter (\<lambda>e. h_sessionId e = code) ?hist
          = map (history_of ?m) (filter (\<lambda>s. sessionId s = code) ?ss)"
    by (simp add: filter_map comp_def k)
  also have "filter (\<lambda>s. sessionId s = code) ?ss
          = sort_desc startTime (filter (\<lambda>s. \<not> active s \<and> sessionId s = code) (sessions st))"
    by (simp add: filter_sort_desc conj_commute)
  finally have 3: "length (filter (\<lambda>e. h_sessionId e = code) ?hist)
             = length (filter (\<lambda>s. \<not> active s \<and> sessionId s = code) (sessions st))"
    by (simp add: length_sort_desc)
  show ?thesis
    using 1 2 3 by blast
qed

theorem history_keyed_by_code_witness:
  "auth rt0 st_join hdr_alice = Some alice
   \<and> records_of st_join (uid alice) ''AB12CD'' = [a1, a2]
   \<and> timestamp a1 = 6000 \<and> timestamp a2 = 6500
   \<and> serve rt0 st_join (GetAttendanceHistory hdr_alice)
       = (Reply 200 (History
            [\<lparr>h_sessionId = ''AB12CD'', h_subject = Some ''Physics'', h_date = 6500,
              status = ''Present'', h_location = \<lparr>latitude = Some 19, longitude = Some 72\<rparr>\<rparr>,
             \<lparr>h_sessionId = ''AB12CD'', h_subject = Some ''Maths'', h_date = 6500,
              status = ''Present'', h_location = \<lparr>latitude = Some 19, longitude = Some 72\<rparr>\<rparr>]),
          st_join)
   \<and> (\<exists>hist. serve rt0 st_join (GetAttendanceHistory hdr_alice)
                 = (Reply 200 (History hist), st_join)
         \<and> list_all (\<lambda>e. h_sessionId e = ''AB12CD'' \<longrightarrow>
               status e = ''Present'' \<and> h_date e = timestamp a2) hist
         \<and> length (filter (\<lambda>e. h_sessionId e = ''AB12CD'') hist) = 2)"
proof -
  have h: "auth rt0 st_join hdr_alice = Some alice"
    by (rule auth_alice) (simp_all add: rt0_tokens st_join_def)
  have r: "records_of st_join (uid alice) ''AB12CD'' = [a1, a2]"
    by (simp add: records_of_def st_join_def a1_def a2_def alice_def)
  have n: "records_of st_join (uid alice) ''AB12CD'' \<noteq> []"
    by (simp add: r)
  have t: "timestamp a1 = 6000 \<and> timestamp a2 = 6500"
    by (simp add: a1_def a2_def)
  have c: "length (filter (\<lambda>s. \<not> active s \<and> sessionId s = ''AB12CD'') (sessions st_join)) = 2"
    by (simp add: st_join_def s1_ended_def s2_ended_def s1_def s2_def)
  have e: "serve rt0 st_join (GetAttendanceHistory hdr_alice)
       = (Reply 200 (History
            [\<lparr>h_sessionId = ''AB12CD'', h_subject = Some ''Physics'', h_date = 6500,
              status = ''Present'', h_location = \<lparr>latitude = Some 19, longitude = Some 72\<rparr>\<rparr>,
             \<lparr>h_sessionId = ''AB12CD'', h_subject = Some ''Maths'', h_date = 6500,
              status = ''Present'', h_location = \<lparr>latitude = Some 19, longitude = Some 72\<rparr>\<rparr>]),
          st_join)"
    apply (simp only: serve.simps authed_def h option.simps)
    apply (simp add: attendance_history_def attendanceMap_def history_of_def sort_desc_def
             st_join_def s1_ended_def s2_ended_def s1_def s2_def a1_def a2_def alice_def
             Let_def)
    done
  show ?thesis
    using h r t e history_keyed_by_code [OF h n] unfolding r c by auto
qed

subsection \<open>Starting a session\<close>

text \<open>
  Claim C5, as amended. Given that \<open>uuidv4\<close> returns a UUID: for every authenticated caller
  and in every state, starting a session succeeds (status 201) whenever the subject and
  the coordinates sent are absent or can be cast to the types of their schema paths; it
  then appends a session whose code is the first six characters of the UUID in upper
  case (six upper-case alphanumeric characters), with \<open>active = true\<close>, no end time and
  the current time as start time. When one of the values sent cannot be cast, saving
  throws and the reply is status 400 with nothing stored. When \<open>auth\<close> finds no user the
  reply is Unauthenticated. The sessions already stored are not consulted, so no check
  against the codes of active sessions is made.
\<close>

theorem start_session_outcomes:
  assumes "is_uuid (uuid rt)"
  shows "(auth rt st h = None \<longrightarrow>
            serve rt st (PostStartSession h subj lat lon) = (Unauthenticated, st))
       \<and> (\<forall>u. auth rt st h = Some u \<longrightarrow>
            (if rejected subj \<or> rejected lat \<or> rejected lon
             then serve rt st (PostStartSession h subj lat lon) = (Reply 400 Thrown, st)
             else (\<exists>sess. serve rt st (PostStartSession h subj lat lon)
                      = (Reply 201 (SessionDoc sess), st\<lparr>sessions := sessions st @ [sess]\<rparr>)
                  \<and> sess = \<lparr>sessionId = toUpperCase (substring 0 6 (uuid rt)),
                             teacherId = uid u, subject = stored subj,
                             location = \<lparr>latitude = stored lat, longitude = stored lon\<rparr>,
                             startTime = now rt, endTime = None, active = True\<rparr>
                  \<and> length (sessionId sess) = 6
                  \<and> list_all upper_alnum (sessionId sess))))"
proof -
  have len: "length (toUpperCase (substring 0 6 (uuid rt))) = 6"
    using assms by (simp add: toUpperCase_def substring_def is_uuid_def)
  have al: "list_all upper_alnum (toUpperCase (substring 0 6 (uuid rt)))"
    using uuid_prefix_hex[OF assms] hex_upper
    by (auto simp: toUpperCase_def substring_def list_all_iff)
  show ?thesis using len al
    by (simp add: authed_def start_session_def Let_def)
qed

theorem start_session_outcomes_witness:
  "is_uuid (uuid rt1)
   \<and> auth rt1 st_open hdr_bob = Some bob
   \<and> sessions st_open = [s1] \<and> sessionId s1 = ''AB12CD'' \<and> active s1
   \<and> serve rt1 st_open (PostStartSession hdr_bob (Given ''Physics'') (Given 19) (Given 72))
       = (Reply 201 (SessionDoc s2), st_dup)
   \<and> sessionId s2 = ''AB12CD'' \<and> active s2 \<and> startTime s2 = now rt1
   \<and> serve rt1 st_open (PostStartSession hdr_bob (Given ''Physics'') (Given 19) Malformed)
       = (Reply 400 Thrown, st_open)
   \<and> serve rt1 st_open (PostStartSession None (Given ''Physics'') (Given 19) (Given 72))
       = (Unauthenticated, st_open)"
proof -
  have h: "is_uuid (uuid rt1)"
    by (simp add: rt1_def rt0_def is_uuid_def hex_digit_def)
  have a: "auth rt1 st_open hdr_bob = Some bob"
    by (rule auth_bob) (simp_all add: rt1_tokens st_open_def)
  have n: "auth rt1 st_open None = None"
    by (simp add: auth_def)
  have c: "toUpperCase (substring 0 6 (uuid rt1)) = ''AB12CD''"
    by (simp add: rt1_def rt0_def toUpperCase_def substring_def upper_char_def)
  have d: "st_open\<lparr>sessions := sessions st_open @ [s2]\<rparr> = st_dup"
    by (simp add: st_open_def st_dup_def)
  have f: "sessions st_open = [s1] \<and> sessionId s1 = ''AB12CD'' \<and> active s1
           \<and> sessionId s2 = ''AB12CD'' \<and> active s2 \<and> startTime s2 = now rt1"
    by (simp add: st_open_def s1_def s2_def rt1_def rt0_def)
  have ok: "(rejected (Given ''Physics'') \<or> rejected (Given (19::real))
              \<or> rejected (Given (72::real))) = False"
    by simp
  have bad: "(rejected (Given ''Physics'') \<or> rejected (Given (19::real))
              \<or> rejected (Malformed :: real field)) = True"
    by simp
  note t1 = start_session_outcomes [OF h, of st_open hdr_bob "Given ''Physics''" "Given 19"
              "Given 72", THEN conjunct2, THEN spec, THEN mp, OF a]
  note t2 = start_session_outcomes [OF h, of st_open hdr_bob "Given ''Physics''" "Given 19"
              Malformed, THEN conjunct2, THEN spec, THEN mp, OF a]
  note t3 = start_session_outcomes [OF h, of st_open None "Given ''Physics''" "Given 19"
              "Given 72", THEN conjunct1, THEN mp, OF n]
  from t1 have "\<exists>sess. serve rt1 st_open
                  (PostStartSession hdr_bob (Given ''Physics'') (Given 19) (Given 72))
          = (Reply 201 (SessionDoc sess), st_open\<lparr>sessions := sessions st_open @ [sess]\<rparr>)
        \<and> sess = \<lparr>sessionId = toUpperCase (substring 0 6 (uuid rt1)),
                   teacherId = uid bob, subject = stored (Given ''Physics''),
                   location = \<lparr>latitude = stored (Given 19), longitude = stored (Given 72)\<rparr>,
                   startTime = now rt1, endTime = None, active = True\<rparr>
        \<and> length (sessionId sess) = 6
        \<and> list_all upper_alnum (sessionId sess)"
    unfolding ok by (simp only: if_False)
  then obtain sess where
    r: "serve rt1 st_open (PostStartSession hdr_bob (Given ''Physics'') (Given 19) (Given 72))
          = (Reply 201 (SessionDoc sess), st_open\<lparr>sessions := sessions st_open @ [sess]\<rparr>)"
    and e: "sess = \<lparr>sessionId = toUpperCase (substring 0 6 (uuid rt1)),
                    teacherId = uid bob, subject = stored (Given ''Physics''),
                    location = \<lparr>latitude = stored (Given 19), longitude = stored (Given 72)\<rparr>,
                    startTime = now rt1, endTime = None, active = True\<rparr>"
    by blast
  have "sess = s2"
    unfolding e c by (simp add: s2_def bob_def rt1_def rt0_def)
  with r d have r': "serve rt1 st_open
                       (PostStartSession hdr_bob (Given ''Physics'') (Given 19) (Given 72))
          = (Reply 201 (SessionDoc s2), st_dup)"
    by simp
  from t2 have m: "serve rt1 st_open
                     (PostStartSession hdr_bob (Given ''Physics'') (Given 19) Malformed)
          = (Reply 400 Thrown, st_open)"
    unfolding bad by (simp only: if_True)
  show ?thesis
    by (intro conjI h a f [THEN conjunct1] f [THEN conjunct2, THEN conjunct1]
          f [THEN conjunct2, THEN conjunct2, THEN conjunct1] r'
          f [THEN conjunct2, THEN conjunct2, THEN conjunct2, THEN conjunct1]
          f [THEN conjunct2, THEN conjunct2, THEN conjunct2, THEN conjunct2, THEN conjunct1]
          f [THEN conjunct2, THEN conjunct2, THEN conjunct2, THEN conjunct2, THEN conjunct2]
          m t3)
qed

text \<open>
  Claim C5 as stated fails for an authenticated caller who sends a latitude that is not
  a number (the string \<open>north\<close>, say): \<open>session.save()\<close> throws on the cast error, the
  handler's \<open>catch\<close> answers status 400, which is not Unauthenticated, and no session is
  created.
\<close>

theorem start_session_malformed_counterexample:
  "auth rt1 st_open hdr_bob = Some bob
   \<and> is_uuid (uuid rt1)
   \<and> serve rt1 st_open (PostStartSession hdr_bob (Given ''Physics'') Malformed (Given 72))
       = (Reply 400 Thrown, st_open)
   \<and> status_code (Reply 400 Thrown) \<noteq> 201
   \<and> Reply 400 Thrown \<noteq> Unauthenticated
   \<and> sessions st_open = [s1]"
proof -
  have a: "auth rt1 st_open hdr_bob = Some bob"
    by (rule auth_bob) (simp_all add: rt1_tokens st_open_def)
  have h: "is_uuid (uuid rt1)"
    by (simp add: rt1_def rt0_def is_uuid_def hex_digit_def)
  have r: "serve rt1 st_open (PostStartSession hdr_bob (Given ''Physics'') Malformed (Given 72))
       = (Reply 400 Thrown, st_open)"
    apply (simp only: serve.simps authed_def a option.simps)
    apply (simp add: start_session_def Let_def)
    done
  have x: "status_code (Reply 400 Thrown) \<noteq> 201 \<and> Reply 400 Thrown \<noteq> Unauthenticated
           \<and> sessions st_open = [s1]"
    by (simp add: Unauthenticated_def st_open_def)
  show ?thesis
    by (intro conjI a h r x [THEN conjunct1] x [THEN conjunct2, THEN conjunct1]
          x [THEN conjunct2, THEN conjunct2])
qed

subsection \<open>Ending a session\<close>

text \<open>
  Claim C4, as amended. For an authenticated caller, ending a session succeeds exactly
  when some stored session has the code, is owned by the caller and is active: the first
  such session in stored order gets \<open>active = false\<close> and \<open>endTime = now\<close> and is returned
  as updated (status 200), and nothing else changes; otherwise the reply is NotFound
  (status 404) and the state is unchanged. After a successful call, a second call with
  the same caller and code leaves the session ended by the first call as the first call
  left it (its end time is the first call's), and it is answered with NotFound exactly
  when no other active session of the caller had the code; when another one had, the
  second call ends that one.
\<close>

theorem end_session_behaviour:
  assumes "auth rt st h = Some u"
  shows "if \<exists>s \<in> set (sessions st). owned_active (uid u) sid s
         then \<exists>i < length (sessions st).
                owned_active (uid u) sid (sessions st ! i)
              \<and> (\<forall>j < i. \<not> owned_active (uid u) sid (sessions st ! j))
              \<and> serve rt st (PostEndSession h sid)
                  = (Reply 200 (SessionDoc (ended_at (now rt) (sessions st ! i))),
                     st\<lparr>sessions := (sessions st)[i := ended_at (now rt) (sessions st ! i)]\<rparr>)
              \<and> (\<forall>rt'. jwt_verify rt' = jwt_verify rt \<longrightarrow>
                    sessions (snd (serve rt' (snd (serve rt st (PostEndSession h sid)))
                                     (PostEndSession h sid))) ! i
                      = ended_at (now rt) (sessions st ! i)
                  \<and> (fst (serve rt' (snd (serve rt st (PostEndSession h sid)))
                                     (PostEndSession h sid)) = NotFound
                       \<longleftrightarrow> (\<forall>j < length (sessions st).
                              j \<noteq> i \<longrightarrow> \<not> owned_active (uid u) sid (sessions st ! j))))
         else serve rt st (PostEndSession h sid) = (NotFound, st)
              \<and> status_code NotFound = 404"
proof (cases "\<exists>s \<in> set (sessions st). owned_active (uid u) sid s")
  case False
  then show ?thesis
    using assms by (simp add: authed_def end_session_none NotFound_def)
next
  case True
  let ?xs = "sessions st"
  from end_session_some[OF True, of rt] obtain i where
    i: "i < length ?xs" "owned_active (uid u) sid (?xs ! i)"
       "\<forall>j < i. \<not> owned_active (uid u) sid (?xs ! j)" and
    e: "end_session rt st u sid
         = (Reply 200 (SessionDoc (ended_at (now rt) (?xs ! i))),
            st\<lparr>sessions := ?xs[i := ended_at (now rt) (?xs ! i)]\<rparr>)"
    by blast
  define st1 where "st1 = st\<lparr>sessions := ?xs[i := ended_at (now rt) (?xs ! i)]\<rparr>"
  have s1: "serve rt st (PostEndSession h sid)
         = (Reply 200 (SessionDoc (ended_at (now rt) (?xs ! i))), st1)"
    using assms by (simp add: authed_def e st1_def)
  have xs1: "sessions st1 = ?xs[i := ended_at (now rt) (?xs ! i)]"
    by (simp add: st1_def)
  have ex1: "(\<exists>s \<in> set (sessions st1). owned_active (uid u) sid s)
        \<longleftrightarrow> (\<exists>j < length ?xs. j \<noteq> i \<and> owned_active (uid u) sid (?xs ! j))"
    unfolding xs1 by (rule exists_after_update) (simp_all add: i(1) not_owned_active_ended)
  have second: "sessions (snd (serve rt' st1 (PostEndSession h sid))) ! i
                  = ended_at (now rt) (?xs ! i)
              \<and> (fst (serve rt' st1 (PostEndSession h sid)) = NotFound
                   \<longleftrightarrow> (\<forall>j < length ?xs. j \<noteq> i \<longrightarrow> \<not> owned_active (uid u) sid (?xs ! j)))"
    if v: "jwt_verify rt' = jwt_verify rt" for rt'
  proof -
    have "auth rt' st1 h = auth rt st h"
      by (rule auth_users) (simp_all add: st1_def v)
    then have s2: "serve rt' st1 (PostEndSession h sid) = end_session rt' st1 u sid"
      using assms by (simp add: authed_def)
    show ?thesis
    proof (cases "\<exists>s \<in> set (sessions st1). owned_active (uid u) sid s")
      case False
      then have "end_session rt' st1 u sid = (NotFound, st1)"
        by (rule end_session_none)
      with False ex1 i(1) show ?thesis
        unfolding s2 by (auto simp: xs1)
    next
      case True
      from end_session_some[OF True, of rt'] obtain k where
        k: "k < length (sessions st1)" "owned_active (uid u) sid (sessions st1 ! k)" and
        e2: "end_session rt' st1 u sid
           = (Reply 200 (SessionDoc (ended_at (now rt') (sessions st1 ! k))),
              st1\<lparr>sessions := (sessions st1)[k := ended_at (now rt') (sessions st1 ! k)]\<rparr>)"
        by blast
      have "k \<noteq> i"
        using k(2) i(1) not_owned_active_ended by (auto simp: xs1)
      then have "sessions (snd (end_session rt' st1 u sid)) ! i = ended_at (now rt) (?xs ! i)"
        using i(1) by (simp add: e2 xs1)
      moreover have "fst (end_session rt' st1 u sid) \<noteq> NotFound"
        by (simp add: e2 NotFound_def)
      ultimately show ?thesis
        unfolding s2 using True ex1 by auto
    qed
  qed
  have "\<exists>s \<in> set (sessions st). owned_active (uid u) sid s \<Longrightarrow> ?thesis"
    unfolding s1 snd_conv
    using i second by (auto simp: st1_def simp del: serve.simps)
  with True show ?thesis by blast
qed


theorem end_session_behaviour_witness:
  "auth rt2 st_dup hdr_bob = Some bob
   \<and> serve rt2 st_dup (PostEndSession hdr_bob ''AB12CD'')
       = (Reply 200 (SessionDoc s1_ended), st_dup1)
   \<and> sessions (snd (serve rt3 (snd (serve rt2 st_dup (PostEndSession hdr_bob ''AB12CD'')))
                      (PostEndSession hdr_bob ''AB12CD''))) ! 0 = s1_ended
   \<and> fst (serve rt3 (snd (serve rt2 st_dup (PostEndSession hdr_bob ''AB12CD'')))
                      (PostEndSession hdr_bob ''AB12CD'')) \<noteq> NotFound
   \<and> auth rt3 st_dup2 hdr_bob = Some bob
   \<and> serve rt3 st_dup2 (PostEndSession hdr_bob ''AB12CD'') = (NotFound, st_dup2)"
proof -
  let ?req = "PostEndSession hdr_bob ''AB12CD''"
  have h: "auth rt2 st_dup hdr_bob = Some bob"
    by (rule auth_bob) (simp_all add: rt2_tokens st_dup_def)
  have h': "auth rt3 st_dup2 hdr_bob = Some bob"
    by (rule auth_bob) (simp_all add: rt3_tokens st_dup2_def)
  have o0: "owned_active (uid bob) ''AB12CD'' (sessions st_dup ! 0)"
    by (simp add: owned_active_def st_dup_def s1_def bob_def)
  have o1: "owned_active (uid bob) ''AB12CD'' (sessions st_dup ! 1)"
    by (simp add: owned_active_def st_dup_def s2_def bob_def)
  have len: "length (sessions st_dup) = 2"
    by (simp add: st_dup_def)
  have c: "\<exists>s \<in> set (sessions st_dup). owned_active (uid bob) ''AB12CD'' s"
    by (simp add: owned_active_def st_dup_def s1_def bob_def)
  have c': "\<not> (\<exists>s \<in> set (sessions st_dup2). owned_active (uid bob) ''AB12CD'' s)"
    by (simp add: owned_active_def st_dup2_def s1_ended_def s2_ended_def)
  have "\<exists>i < length (sessions st_dup).
          owned_active (uid bob) ''AB12CD'' (sessions st_dup ! i)
        \<and> (\<forall>j < i. \<not> owned_active (uid bob) ''AB12CD'' (sessions st_dup ! j))
        \<and> serve rt2 st_dup ?req
          = (Reply 200 (SessionDoc (ended_at (now rt2) (sessions st_dup ! i))),
             st_dup\<lparr>sessions := (sessions st_dup)[i := ended_at (now rt2) (sessions st_dup ! i)]\<rparr>)
        \<and> (\<forall>rt'. jwt_verify rt' = jwt_verify rt2 \<longrightarrow>
          sessions (snd (serve rt' (snd (serve rt2 st_dup ?req)) ?req)) ! i
            = ended_at (now rt2) (sessions st_dup ! i)
        \<and> (fst (serve rt' (snd (serve rt2 st_dup ?req)) ?req) = NotFound
             \<longleftrightarrow> (\<forall>j < length (sessions st_dup).
                    j \<noteq> i \<longrightarrow> \<not> owned_active (uid bob) ''AB12CD'' (sessions st_dup ! j))))"
    using end_session_behaviour [OF h, of "''AB12CD''"] c by (simp only: if_True)
  then obtain i where
    x: "i < length (sessions st_dup)
        \<and> owned_active (uid bob) ''AB12CD'' (sessions st_dup ! i)
        \<and> (\<forall>j < i. \<not> owned_active (uid bob) ''AB12CD'' (sessions st_dup ! j))
        \<and> serve rt2 st_dup ?req
          = (Reply 200 (SessionDoc (ended_at (now rt2) (sessions st_dup ! i))),
             st_dup\<lparr>sessions := (sessions st_dup)[i := ended_at (now rt2) (sessions st_dup ! i)]\<rparr>)
        \<and> (\<forall>rt'. jwt_verify rt' = jwt_verify rt2 \<longrightarrow>
          sessions (snd (serve rt' (snd (serve rt2 st_dup ?req)) ?req)) ! i
            = ended_at (now rt2) (sessions st_dup ! i)
        \<and> (fst (serve rt' (snd (serve rt2 st_dup ?req)) ?req) = NotFound
             \<longleftrightarrow> (\<forall>j < length (sessions st_dup).
                    j \<noteq> i \<longrightarrow> \<not> owned_active (uid bob) ''AB12CD'' (sessions st_dup ! j))))"
    ..
  note i = x [THEN conjunct2, THEN conjunct2, THEN conjunct1]
  note r = x [THEN conjunct2, THEN conjunct2, THEN conjunct2, THEN conjunct1]
  note t = x [THEN conjunct2, THEN conjunct2, THEN conjunct2, THEN conjunct2]
  have i0: "i = 0"
    using i o0 by (cases i) auto
  have e0: "ended_at (now rt2) (sessions st_dup ! 0) = s1_ended"
    by (simp add: ended_at_def st_dup_def s1_ended_def rt2_def rt0_def)
  have u0: "st_dup\<lparr>sessions := (sessions st_dup)[0 := s1_ended]\<rparr> = st_dup1"
    by (simp add: st_dup_def st_dup1_def)
  have r': "serve rt2 st_dup ?req = (Reply 200 (SessionDoc s1_ended), st_dup1)"
    using r unfolding i0 e0 u0 .
  have v: "jwt_verify rt3 = jwt_verify rt2"
    by (simp add: rt2_tokens rt3_tokens)
  have
    kq: "sessions (snd (serve rt3 (snd (serve rt2 st_dup ?req)) ?req)) ! i
            = ended_at (now rt2) (sessions st_dup ! i)
        \<and> (fst (serve rt3 (snd (serve rt2 st_dup ?req)) ?req) = NotFound
             \<longleftrightarrow> (\<forall>j < length (sessions st_dup).
                    j \<noteq> i \<longrightarrow> \<not> owned_active (uid bob) ''AB12CD'' (sessions st_dup ! j)))"
    using t [THEN spec, THEN mp, OF v] .
  have k: "sessions (snd (serve rt3 (snd (serve rt2 st_dup ?req)) ?req)) ! 0 = s1_ended"
    using kq [THEN conjunct1] unfolding i0 e0 .
  have q: "fst (serve rt3 (snd (serve rt2 st_dup ?req)) ?req) = NotFound
          \<longleftrightarrow> (\<forall>j < length (sessions st_dup).
                 j \<noteq> 0 \<longrightarrow> \<not> owned_active (uid bob) ''AB12CD'' (sessions st_dup ! j))"
    using kq [THEN conjunct2] unfolding i0 .
  have "\<not> (\<forall>j < length (sessions st_dup).
             j \<noteq> 0 \<longrightarrow> \<not> owned_active (uid bob) ''AB12CD'' (sessions st_dup ! j))"
  proof
    assume "\<forall>j < length (sessions st_dup).
             j \<noteq> 0 \<longrightarrow> \<not> owned_active (uid bob) ''AB12CD'' (sessions st_dup ! j)"
    then have "1 < length (sessions st_dup) \<longrightarrow> (1::nat) \<noteq> 0
                 \<longrightarrow> \<not> owned_active (uid bob) ''AB12CD'' (sessions st_dup ! 1)"
      by (rule spec)
    with o1 len show False by simp
  qed
  with q have q': "fst (serve rt3 (snd (serve rt2 st_dup ?req)) ?req) \<noteq> NotFound"
    by (simp only: simp_thms)
  have "serve rt3 st_dup2 ?req = (NotFound, st_dup2) \<and> status_code NotFound = 404"
    using end_session_behaviour [OF h', of "''AB12CD''"] c' by (simp only: if_False)
  then have z: "serve rt3 st_dup2 ?req = (NotFound, st_dup2)" ..
  show ?thesis
    by (intro conjI h r' k q' h' z)
qed

text \<open>
  Claim C4 as stated fails where the caller owns two active sessions with one code, a
  state that two start-session requests reach when the UUIDs drawn share their first six
  characters: the second end-session request is then answered with status 200, not with
  NotFound, and ends the second session.
\<close>

theorem end_session_twice_counterexample:
  "serve rt0 st_init (PostStartSession hdr_bob (Given ''Maths'') (Given 19) (Given 72))
     = (Reply 201 (SessionDoc s1), st_open)
   \<and> serve rt1 st_open (PostStartSession hdr_bob (Given ''Physics'') (Given 19) (Given 72))
       = (Reply 201 (SessionDoc s2), st_dup)
   \<and> serve rt2 st_dup (PostEndSession hdr_bob ''AB12CD'')
       = (Reply 200 (SessionDoc s1_ended), st_dup1)
   \<and> serve rt3 st_dup1 (PostEndSession hdr_bob ''AB12CD'')
       = (Reply 200 (SessionDoc s2_ended), st_dup2)
   \<and> fst (serve rt3 st_dup1 (PostEndSession hdr_bob ''AB12CD'')) \<noteq> NotFound"
proof -
  have a0: "auth rt0 st_init hdr_bob = Some bob"
    by (rule auth_bob) (simp_all add: rt0_tokens st_init_def)
  have a1: "auth rt1 st_open hdr_bob = Some bob"
    by (rule auth_bob) (simp_all add: rt1_tokens st_open_def)
  have a2: "auth rt2 st_dup hdr_bob = Some bob"
    by (rule auth_bob) (simp_all add: rt2_tokens st_dup_def)
  have a3: "auth rt3 st_dup1 hdr_bob = Some bob"
    by (rule auth_bob) (simp_all add: rt3_tokens st_dup1_def)
  have 1: "serve rt0 st_init (PostStartSession hdr_bob (Given ''Maths'') (Given 19) (Given 72))
     = (Reply 201 (SessionDoc s1), st_open)"
    apply (simp only: serve.simps authed_def a0 option.simps)
    apply (simp add: start_session_def toUpperCase_def substring_def upper_char_def
             st_init_def st_open_def s1_def bob_def rt0_def Let_def)
    done
  have 2: "serve rt1 st_open (PostStartSession hdr_bob (Given ''Physics'') (Given 19) (Given 72))
       = (Reply 201 (SessionDoc s2), st_dup)"
    apply (simp only: serve.simps authed_def a1 option.simps)
    apply (simp add: start_session_def toUpperCase_def substring_def upper_char_def
             st_open_def st_dup_def s2_def bob_def rt1_def rt0_def Let_def)
    done
  have 3: "serve rt2 st_dup (PostEndSession hdr_bob ''AB12CD'')
       = (Reply 200 (SessionDoc s1_ended), st_dup1)"
    apply (simp only: serve.simps authed_def a2 option.simps)
    apply (simp add: end_session_def st_dup_def st_dup1_def s1_ended_def s1_def s2_def
             bob_def rt2_def rt0_def)
    done
  have 4: "serve rt3 st_dup1 (PostEndSession hdr_bob ''AB12CD'')
       = (Reply 200 (SessionDoc s2_ended), st_dup2)"
    apply (simp only: serve.simps authed_def a3 option.simps)
    apply (simp add: end_session_def st_dup1_def st_dup2_def s1_ended_def s2_ended_def
             s1_def s2_def bob_def rt3_def rt0_def)
    done
  have 5: "fst (serve rt3 st_dup1 (PostEndSession hdr_bob ''AB12CD'')) \<noteq> NotFound"
    unfolding 4 by (simp add: NotFound_def)
  show ?thesis
    using 1 2 3 4 5 by blast
qed

subsection \<open>The life of a session\<close>

text \<open>
  Claim C7. A session only ever goes from active to ended, and ended is final. For every
  request of every route: no session is removed, and each stored session keeps its
  position; a stored session is either left exactly as it is, or it was active and the
  request is an end-session request for its code by its owning teacher, which sets
  \<open>active = false\<close> and \<open>endTime = now\<close> and nothing else; a session the request adds is
  active, without end time, and the request is a start-session request. Hence, over any
  sequence of requests, a session that is ended stays in place exactly as it is: nothing
  sets it back to active.
\<close>

theorem session_lifecycle:
  "length (sessions st) \<le> length (sessions (snd (serve rt st req)))
   \<and> (\<forall>i < length (sessions st).
         sessions (snd (serve rt st req)) ! i = sessions st ! i
       \<or> (\<exists>h u. req = PostEndSession h (sessionId (sessions st ! i))
               \<and> auth rt st h = Some u
               \<and> owned_active (uid u) (sessionId (sessions st ! i)) (sessions st ! i)
               \<and> sessions (snd (serve rt st req)) ! i = ended_at (now rt) (sessions st ! i)))
   \<and> (\<forall>i. length (sessions st) \<le> i \<and> i < length (sessions (snd (serve rt st req))) \<longrightarrow>
         active (sessions (snd (serve rt st req)) ! i)
       \<and> endTime (sessions (snd (serve rt st req)) ! i) = None
       \<and> (\<exists>h subj lat lon. req = PostStartSession h subj lat lon))
   \<and> (\<forall>i < length (sessions st). \<not> active (sessions st ! i) \<longrightarrow>
         i < length (sessions (run st rs))
       \<and> sessions (run st rs) ! i = sessions st ! i)"
proof -
  note s = serve_session_step [of rt st req, unfolded session_step_def]
  have e: "\<forall>i < length (sessions st). \<not> active (sessions st ! i) \<longrightarrow>
         i < length (sessions (run st rs))
       \<and> sessions (run st rs) ! i = sessions st ! i"
    using run_ended by blast
  from s [THEN conjunct1] s [THEN conjunct2, THEN conjunct1]
    s [THEN conjunct2, THEN conjunct2] e
  show ?thesis by (intro conjI)
qed

theorem session_lifecycle_witness:
  "length (sessions st_dup1)
     \<le> length (sessions (snd (serve rt3 st_dup1 (PostEndSession hdr_bob ''AB12CD''))))
   \<and> sessions st_dup1 = [s1_ended, s2] \<and> \<not> active s1_ended \<and> active s2
   \<and> sessions (run st_dup1 [(rt3, PostEndSession hdr_bob ''AB12CD''),
                             (rt1, PostStartSession hdr_bob (Given ''Physics'') (Given 19) (Given 72))]) ! 0
       = s1_ended
   \<and> sessions (run st_dup1 [(rt3, PostEndSession hdr_bob ''AB12CD''),
                             (rt1, PostStartSession hdr_bob (Given ''Physics'') (Given 19) (Given 72))])
       = [s1_ended, s2_ended, s2]"
proof -
  let ?rs = "[(rt3, PostEndSession hdr_bob ''AB12CD''),
              (rt1, PostStartSession hdr_bob (Given ''Physics'') (Given 19) (Given 72))]"
  note t = session_lifecycle [of st_dup1 rt3 "PostEndSession hdr_bob ''AB12CD''" ?rs]
  have x: "sessions st_dup1 = [s1_ended, s2] \<and> \<not> active s1_ended \<and> active s2"
    by (simp add: st_dup1_def s1_ended_def s2_def)
  have "0 < length (sessions st_dup1) \<longrightarrow> \<not> active (sessions st_dup1 ! 0) \<longrightarrow>
          0 < length (sessions (run st_dup1 ?rs))
        \<and> sessions (run st_dup1 ?rs) ! 0 = sessions st_dup1 ! 0"
    using t [THEN conjunct2, THEN conjunct2, THEN conjunct2] by blast
  then have k: "sessions (run st_dup1 ?rs) ! 0 = s1_ended"
    using x by simp
  have a3: "auth rt3 st_dup1 hdr_bob = Some bob"
    by (rule auth_bob) (simp_all add: rt3_tokens st_dup1_def)
  have a1: "auth rt1 st_dup2 hdr_bob = Some bob"
    by (rule auth_bob) (simp_all add: rt1_tokens st_dup2_def)
  have 1: "snd (serve rt3 st_dup1 (PostEndSession hdr_bob ''AB12CD'')) = st_dup2"
    apply (simp only: serve.simps authed_def a3 option.simps)
    apply (simp add: end_session_def st_dup1_def st_dup2_def s1_ended_def s2_ended_def
             s1_def s2_def bob_def rt3_def rt0_def)
    done
  have 2: "sessions (snd (serve rt1 st_dup2 (PostStartSession hdr_bob (Given ''Physics'') (Given 19) (Given 72))))
             = [s1_ended, s2_ended, s2]"
    apply (simp only: serve.simps authed_def a1 option.simps)
    apply (simp add: start_session_def toUpperCase_def substring_def upper_char_def
             st_dup2_def s2_def bob_def rt1_def rt0_def Let_def)
    done
  have r: "sessions (run st_dup1 ?rs) = [s1_ended, s2_ended, s2]"
    by (simp only: run.simps 1 2)
  show ?thesis
    by (intro conjI t [THEN conjunct1] x [THEN conjunct1]
          x [THEN conjunct2, THEN conjunct1] x [THEN conjunct2, THEN conjunct2] k r)
qed

subsection \<open>Failures change nothing\<close>

text \<open>
  Claim C8. Whenever a request (marking attendance, ending a session and starting a
  session among them) is answered with one of the errors SessionNotActive, AlreadyMarked,
  NotFound or Unauthenticated, the state after the request is the state before it: the
  sessions and the attendance records are exactly as they were, and nothing was written
  in part.
\<close>

theorem error_leaves_state_unchanged:
  assumes "fst (serve rt st req) \<in> {SessionNotActive, AlreadyMarked, NotFound, Unauthenticated}"
  shows "snd (serve rt st req) = st
         \<and> sessions (snd (serve rt st req)) = sessions st
         \<and> attendances (snd (serve rt st req)) = attendances st"
  using assms
  by (cases req)
     (auto simp: authed_def mark_attendance_def end_session_def start_session_def
        register_def login_def me_def post_notes_def get_notes_def attendance_history_def
        session_attendance_def
        SessionNotActive_def AlreadyMarked_def NotFound_def Unauthenticated_def Let_def
       split: option.splits if_splits prod.splits)

theorem error_leaves_state_unchanged_witness:
  "fst (serve rt0 st_marked (PostMarkAttendance hdr_alice ''AB12CD'' (Given 18) (Given 73)))
     \<in> {SessionNotActive, AlreadyMarked, NotFound, Unauthenticated}
   \<and> fst (serve rt0 st_marked (PostMarkAttendance hdr_alice ''AB12CD'' (Given 18) (Given 73))) = AlreadyMarked
   \<and> snd (serve rt0 st_marked (PostMarkAttendance hdr_alice ''AB12CD'' (Given 18) (Given 73))) = st_marked"
proof -
  have a: "auth rt0 st_marked hdr_alice = Some alice"
    by (rule auth_alice) (simp_all add: rt0_def st_marked_def)
  have s: "serve rt0 st_marked (PostMarkAttendance hdr_alice ''AB12CD'' (Given 18) (Given 73))
              = (AlreadyMarked, st_marked)"
    apply (simp only: serve.simps authed_def a option.simps)
    apply (simp add: mark_attendance_def findOne_def st_marked_def s1_def a1_def alice_def)
    done
  have h: "fst (serve rt0 st_marked (PostMarkAttendance hdr_alice ''AB12CD'' (Given 18) (Given 73)))
             \<in> {SessionNotActive, AlreadyMarked, NotFound, Unauthenticated}"
    unfolding s by simp
  show ?thesis
    using h error_leaves_state_unchanged [OF h] unfolding s by simp
qed

subsection \<open>Listing the records of a session\<close>

text \<open>
  Claim C9. The listing of a session's attendance makes no ownership or role check: for
  every authenticated user and every session code, the reply (status 200) holds all the
  attendance records stored under that code, whoever owns the session and whatever the
  caller's role; the state is unchanged.
\<close>

theorem session_attendance_unrestricted:
  assumes "auth rt st h = Some u"
  shows "serve rt st (GetSessionAttendance h c) =
           (Reply 200 (Attendances (filter (\<lambda>a. a_sessionId a = c) (attendances st))), st)"
  using assms by (simp add: authed_def session_attendance_def)

theorem session_attendance_unrestricted_witness:
  "auth rt0 st_marked hdr_alice = Some alice
   \<and> role alice = Some ''student'' \<and> teacherId s1 \<noteq> uid alice
   \<and> serve rt0 st_marked (GetSessionAttendance hdr_alice ''AB12CD'') =
       (Reply 200 (Attendances [a1]), st_marked)"
proof -
  have h: "auth rt0 st_marked hdr_alice = Some alice"
    by (rule auth_alice) (simp_all add: rt0_def st_marked_def)
  have "filter (\<lambda>a. a_sessionId a = ''AB12CD'') (attendances st_marked) = [a1]"
    by (simp add: st_marked_def a1_def)
  then show ?thesis
    using h session_attendance_unrestricted [OF h, of "''AB12CD''"]
    by (simp add: alice_def s1_def)
qed

end
